theory Spec2Isabelle
  imports Complex_Main "HOL-Library.Sublist"
begin

section \<open>Python errors\<close>

text \<open>The exceptions that the modelled functions can raise; a function that can raise
  returns \<open>Inl\<close> of the error.\<close>

datatype py_error = ZeroDivisionError | IndexError | TypeError

section \<open>Strings\<close>

text \<open>
  A Python \<open>str\<close> is a sequence of Unicode code points, so a string is a list of
  code points (natural numbers). \<open>str\<close> turns an ASCII literal into such a string.
\<close>

type_synonym pystr = "nat list"

definition str :: "string \<Rightarrow> pystr" where
  "str s = map of_char s"

text \<open>
  \<open>str.lower()\<close>, as CPython 3.11 computes it from the Unicode Character Database
  14.0.0. Every code point is replaced by its lowercase mapping, read at its position:
  \<^item> U+03A3 (931, capital sigma) becomes the final sigma U+03C2 (962) when the nearest
    code point before it that is not case-ignorable is cased and the nearest one after it
    that is not case-ignorable is missing or not cased; otherwise it becomes U+03C3 (963);
  \<^item> U+0130 (304) becomes the two code points 105 and 775;
  \<^item> every other code point becomes one code point, given by \<open>lower_table\<close>.
  An entry \<open>(lo, hi, step, delta)\<close> of \<open>lower_table\<close> maps the code points
  \<open>lo\<close>, \<open>lo + step\<close>, ... up to \<open>hi\<close> to themselves plus \<open>delta\<close>; the
  entries are disjoint and ascending, and a code point in no entry is its own lowercase.
  The table is cut into blocks of sixteen entries; \<open>lower_table c\<close> is the block in whose
  part of the code space \<open>c\<close> lies.
\<close>

definition lower_table_0 :: "(nat \<times> nat \<times> nat \<times> int) list" where
  "lower_table_0 =
     [(65, 90, 1, 32), (192, 214, 1, 32), (216, 222, 1, 32), (256, 302, 2, 1), (306, 310, 2, 1),
      (313, 327, 2, 1), (330, 374, 2, 1), (376, 376, 1, -121), (377, 381, 2, 1), (385, 385, 1,
      210), (386, 388, 2, 1), (390, 390, 1, 206), (391, 391, 1, 1), (393, 394, 1, 205), (395,
      395, 1, 1), (398, 398, 1, 79)]"

definition lower_table_1 :: "(nat \<times> nat \<times> nat \<times> int) list" where
  "lower_table_1 =
     [(399, 399, 1, 202), (400, 400, 1, 203), (401, 401, 1, 1), (403, 403, 1, 205), (404, 404,
      1, 207), (406, 406, 1, 211), (407, 407, 1, 209), (408, 408, 1, 1), (412, 412, 1, 211),
      (413, 413, 1, 213), (415, 415, 1, 214), (416, 420, 2, 1), (422, 422, 1, 218), (423, 423,
      1, 1), (425, 425, 1, 218), (428, 428, 1, 1)]"

definition lower_table_2 :: "(nat \<times> nat \<times> nat \<times> int) list" where
  "lower_table_2 =
     [(430, 430, 1, 218), (431, 431, 1, 1), (433, 434, 1, 217), (435, 437, 2, 1), (439, 439, 1,
      219), (440, 440, 1, 1), (444, 444, 1, 1), (452, 452, 1, 2), (453, 453, 1, 1), (455, 455,
      1, 2), (456, 456, 1, 1), (458, 458, 1, 2), (459, 475, 2, 1), (478, 494, 2, 1), (497, 497,
      1, 2), (498, 500, 2, 1)]"

definition lower_table_3 :: "(nat \<times> nat \<times> nat \<times> int) list" where
  "lower_table_3 =
     [(502, 502, 1, -97), (503, 503, 1, -56), (504, 542, 2, 1), (544, 544, 1, -130), (546, 562,
      2, 1), (570, 570, 1, 10795), (571, 571, 1, 1), (573, 573, 1, -163), (574, 574, 1, 10792),
      (577, 577, 1, 1), (579, 579, 1, -195), (580, 580, 1, 69), (581, 581, 1, 71), (582, 590, 2,
      1), (880, 882, 2, 1), (886, 886, 1, 1)]"

definition lower_table_4 :: "(nat \<times> nat \<times> nat \<times> int) list" where
  "lower_table_4 =
     [(895, 895, 1, 116), (902, 902, 1, 38), (904, 906, 1, 37), (908, 908, 1, 64), (910, 911, 1,
      63), (913, 929, 1, 32), (931, 939, 1, 32), (975, 975, 1, 8), (984, 1006, 2, 1), (1012,
      1012, 1, -60), (1015, 1015, 1, 1), (1017, 1017, 1, -7), (1018, 1018, 1, 1), (1021, 1023,
      1, -130), (1024, 1039, 1, 80), (1040, 1071, 1, 32)]"

definition lower_table_5 :: "(nat \<times> nat \<times> nat \<times> int) list" where
  "lower_table_5 =
     [(1120, 1152, 2, 1), (1162, 1214, 2, 1), (1216, 1216, 1, 15), (1217, 1229, 2, 1), (1232,
      1326, 2, 1), (1329, 1366, 1, 48), (4256, 4293, 1, 7264), (4295, 4295, 1, 7264), (4301,
      4301, 1, 7264), (5024, 5103, 1, 38864), (5104, 5109, 1, 8), (7312, 7354, 1, -3008), (7357,
      7359, 1, -3008), (7680, 7828, 2, 1), (7838, 7838, 1, -7615), (7840, 7934, 2, 1)]"

definition lower_table_6 :: "(nat \<times> nat \<times> nat \<times> int) list" where
  "lower_table_6 =
     [(7944, 7951, 1, -8), (7960, 7965, 1, -8), (7976, 7983, 1, -8), (7992, 7999, 1, -8), (8008,
      8013, 1, -8), (8025, 8031, 2, -8), (8040, 8047, 1, -8), (8072, 8079, 1, -8), (8088, 8095,
      1, -8), (8104, 8111, 1, -8), (8120, 8121, 1, -8), (8122, 8123, 1, -74), (8124, 8124, 1,
      -9), (8136, 8139, 1, -86), (8140, 8140, 1, -9), (8152, 8153, 1, -8)]"

definition lower_table_7 :: "(nat \<times> nat \<times> nat \<times> int) list" where
  "lower_table_7 =
     [(8154, 8155, 1, -100), (8168, 8169, 1, -8), (8170, 8171, 1, -112), (8172, 8172, 1, -7),
      (8184, 8185, 1, -128), (8186, 8187, 1, -126), (8188, 8188, 1, -9), (8486, 8486, 1, -7517),
      (8490, 8490, 1, -8383), (8491, 8491, 1, -8262), (8498, 8498, 1, 28), (8544, 8559, 1, 16),
      (8579, 8579, 1, 1), (9398, 9423, 1, 26), (11264, 11311, 1, 48), (11360, 11360, 1, 1)]"

definition lower_table_8 :: "(nat \<times> nat \<times> nat \<times> int) list" where
  "lower_table_8 =
     [(11362, 11362, 1, -10743), (11363, 11363, 1, -3814), (11364, 11364, 1, -10727), (11367,
      11371, 2, 1), (11373, 11373, 1, -10780), (11374, 11374, 1, -10749), (11375, 11375, 1,
      -10783), (11376, 11376, 1, -10782), (11378, 11378, 1, 1), (11381, 11381, 1, 1), (11390,
      11391, 1, -10815), (11392, 11490, 2, 1), (11499, 11501, 2, 1), (11506, 11506, 1, 1),
      (42560, 42604, 2, 1), (42624, 42650, 2, 1)]"

definition lower_table_9 :: "(nat \<times> nat \<times> nat \<times> int) list" where
  "lower_table_9 =
     [(42786, 42798, 2, 1), (42802, 42862, 2, 1), (42873, 42875, 2, 1), (42877, 42877, 1,
      -35332), (42878, 42886, 2, 1), (42891, 42891, 1, 1), (42893, 42893, 1, -42280), (42896,
      42898, 2, 1), (42902, 42920, 2, 1), (42922, 42922, 1, -42308), (42923, 42923, 1, -42319),
      (42924, 42924, 1, -42315), (42925, 42925, 1, -42305), (42926, 42926, 1, -42308), (42928,
      42928, 1, -42258), (42929, 42929, 1, -42282)]"

definition lower_table_10 :: "(nat \<times> nat \<times> nat \<times> int) list" where
  "lower_table_10 =
     [(42930, 42930, 1, -42261), (42931, 42931, 1, 928), (42932, 42946, 2, 1), (42948, 42948, 1,
      -48), (42949, 42949, 1, -42307), (42950, 42950, 1, -35384), (42951, 42953, 2, 1), (42960,
      42960, 1, 1), (42966, 42968, 2, 1), (42997, 42997, 1, 1), (65313, 65338, 1, 32), (66560,
      66599, 1, 40), (66736, 66771, 1, 40), (66928, 66938, 1, 39), (66940, 66954, 1, 39),
      (66956, 66962, 1, 39)]"

definition lower_table_11 :: "(nat \<times> nat \<times> nat \<times> int) list" where
  "lower_table_11 =
     [(66964, 66965, 1, 39), (68736, 68786, 1, 64), (71840, 71871, 1, 32), (93760, 93791, 1,
      32), (125184, 125217, 1, 34)]"

definition lower_table :: "nat \<Rightarrow> (nat \<times> nat \<times> nat \<times> int) list" where
  "lower_table c =
     (if c < 399 then lower_table_0
      else if c < 430 then lower_table_1
      else if c < 502 then lower_table_2
      else if c < 895 then lower_table_3
      else if c < 1120 then lower_table_4
      else if c < 7944 then lower_table_5
      else if c < 8154 then lower_table_6
      else if c < 11362 then lower_table_7
      else if c < 42786 then lower_table_8
      else if c < 42930 then lower_table_9
      else if c < 66964 then lower_table_10
      else lower_table_11)"

text \<open>The code points with the property Case_Ignorable, as ascending ranges
  \<open>(lo, hi)\<close>, in blocks like \<open>lower_table\<close>.\<close>

definition case_ignorable_table_0 :: "(nat \<times> nat) list" where
  "case_ignorable_table_0 =
     [(39, 39), (46, 46), (58, 58), (94, 94), (96, 96), (168, 168), (173, 173), (175, 175),
      (180, 180), (183, 184), (688, 879), (884, 885), (890, 890), (900, 901), (903, 903), (1155,
      1161)]"

definition case_ignorable_table_1 :: "(nat \<times> nat) list" where
  "case_ignorable_table_1 =
     [(1369, 1369), (1375, 1375), (1425, 1469), (1471, 1471), (1473, 1474), (1476, 1477), (1479,
      1479), (1524, 1524), (1536, 1541), (1552, 1562), (1564, 1564), (1600, 1600), (1611, 1631),
      (1648, 1648), (1750, 1757), (1759, 1768)]"

definition case_ignorable_table_2 :: "(nat \<times> nat) list" where
  "case_ignorable_table_2 =
     [(1770, 1773), (1807, 1807), (1809, 1809), (1840, 1866), (1958, 1968), (2027, 2037), (2042,
      2042), (2045, 2045), (2070, 2093), (2137, 2139), (2184, 2184), (2192, 2193), (2200, 2207),
      (2249, 2306), (2362, 2362), (2364, 2364)]"

definition case_ignorable_table_3 :: "(nat \<times> nat) list" where
  "case_ignorable_table_3 =
     [(2369, 2376), (2381, 2381), (2385, 2391), (2402, 2403), (2417, 2417), (2433, 2433), (2492,
      2492), (2497, 2500), (2509, 2509), (2530, 2531), (2558, 2558), (2561, 2562), (2620, 2620),
      (2625, 2626), (2631, 2632), (2635, 2637)]"

definition case_ignorable_table_4 :: "(nat \<times> nat) list" where
  "case_ignorable_table_4 =
     [(2641, 2641), (2672, 2673), (2677, 2677), (2689, 2690), (2748, 2748), (2753, 2757), (2759,
      2760), (2765, 2765), (2786, 2787), (2810, 2815), (2817, 2817), (2876, 2876), (2879, 2879),
      (2881, 2884), (2893, 2893), (2901, 2902)]"

definition case_ignorable_table_5 :: "(nat \<times> nat) list" where
  "case_ignorable_table_5 =
     [(2914, 2915), (2946, 2946), (3008, 3008), (3021, 3021), (3072, 3072), (3076, 3076), (3132,
      3132), (3134, 3136), (3142, 3144), (3146, 3149), (3157, 3158), (3170, 3171), (3201, 3201),
      (3260, 3260), (3263, 3263), (3270, 3270)]"

definition case_ignorable_table_6 :: "(nat \<times> nat) list" where
  "case_ignorable_table_6 =
     [(3276, 3277), (3298, 3299), (3328, 3329), (3387, 3388), (3393, 3396), (3405, 3405), (3426,
      3427), (3457, 3457), (3530, 3530), (3538, 3540), (3542, 3542), (3633, 3633), (3636, 3642),
      (3654, 3662), (3761, 3761), (3764, 3772)]"

definition case_ignorable_table_7 :: "(nat \<times> nat) list" where
  "case_ignorable_table_7 =
     [(3782, 3782), (3784, 3789), (3864, 3865), (3893, 3893), (3895, 3895), (3897, 3897), (3953,
      3966), (3968, 3972), (3974, 3975), (3981, 3991), (3993, 4028), (4038, 4038), (4141, 4144),
      (4146, 4151), (4153, 4154), (4157, 4158)]"

definition case_ignorable_table_8 :: "(nat \<times> nat) list" where
  "case_ignorable_table_8 =
     [(4184, 4185), (4190, 4192), (4209, 4212), (4226, 4226), (4229, 4230), (4237, 4237), (4253,
      4253), (4348, 4348), (4957, 4959), (5906, 5908), (5938, 5939), (5970, 5971), (6002, 6003),
      (6068, 6069), (6071, 6077), (6086, 6086)]"

definition case_ignorable_table_9 :: "(nat \<times> nat) list" where
  "case_ignorable_table_9 =
     [(6089, 6099), (6103, 6103), (6109, 6109), (6155, 6159), (6211, 6211), (6277, 6278), (6313,
      6313), (6432, 6434), (6439, 6440), (6450, 6450), (6457, 6459), (6679, 6680), (6683, 6683),
      (6742, 6742), (6744, 6750), (6752, 6752)]"

definition case_ignorable_table_10 :: "(nat \<times> nat) list" where
  "case_ignorable_table_10 =
     [(6754, 6754), (6757, 6764), (6771, 6780), (6783, 6783), (6823, 6823), (6832, 6862), (6912,
      6915), (6964, 6964), (6966, 6970), (6972, 6972), (6978, 6978), (7019, 7027), (7040, 7041),
      (7074, 7077), (7080, 7081), (7083, 7085)]"

definition case_ignorable_table_11 :: "(nat \<times> nat) list" where
  "case_ignorable_table_11 =
     [(7142, 7142), (7144, 7145), (7149, 7149), (7151, 7153), (7212, 7219), (7222, 7223), (7288,
      7293), (7376, 7378), (7380, 7392), (7394, 7400), (7405, 7405), (7412, 7412), (7416, 7417),
      (7468, 7530), (7544, 7544), (7579, 7679)]"

definition case_ignorable_table_12 :: "(nat \<times> nat) list" where
  "case_ignorable_table_12 =
     [(8125, 8125), (8127, 8129), (8141, 8143), (8157, 8159), (8173, 8175), (8189, 8190), (8203,
      8207), (8216, 8217), (8228, 8228), (8231, 8231), (8234, 8238), (8288, 8292), (8294, 8303),
      (8305, 8305), (8319, 8319), (8336, 8348)]"

definition case_ignorable_table_13 :: "(nat \<times> nat) list" where
  "case_ignorable_table_13 =
     [(8400, 8432), (11388, 11389), (11503, 11505), (11631, 11631), (11647, 11647), (11744,
      11775), (11823, 11823), (12293, 12293), (12330, 12333), (12337, 12341), (12347, 12347),
      (12441, 12446), (12540, 12542), (40981, 40981), (42232, 42237), (42508, 42508)]"

definition case_ignorable_table_14 :: "(nat \<times> nat) list" where
  "case_ignorable_table_14 =
     [(42607, 42610), (42612, 42621), (42623, 42623), (42652, 42655), (42736, 42737), (42752,
      42785), (42864, 42864), (42888, 42890), (42994, 42996), (43000, 43001), (43010, 43010),
      (43014, 43014), (43019, 43019), (43045, 43046), (43052, 43052), (43204, 43205)]"

definition case_ignorable_table_15 :: "(nat \<times> nat) list" where
  "case_ignorable_table_15 =
     [(43232, 43249), (43263, 43263), (43302, 43309), (43335, 43345), (43392, 43394), (43443,
      43443), (43446, 43449), (43452, 43453), (43471, 43471), (43493, 43494), (43561, 43566),
      (43569, 43570), (43573, 43574), (43587, 43587), (43596, 43596), (43632, 43632)]"

definition case_ignorable_table_16 :: "(nat \<times> nat) list" where
  "case_ignorable_table_16 =
     [(43644, 43644), (43696, 43696), (43698, 43700), (43703, 43704), (43710, 43711), (43713,
      43713), (43741, 43741), (43756, 43757), (43763, 43764), (43766, 43766), (43867, 43871),
      (43881, 43883), (44005, 44005), (44008, 44008), (44013, 44013), (64286, 64286)]"

definition case_ignorable_table_17 :: "(nat \<times> nat) list" where
  "case_ignorable_table_17 =
     [(64434, 64450), (65024, 65039), (65043, 65043), (65056, 65071), (65106, 65106), (65109,
      65109), (65279, 65279), (65287, 65287), (65294, 65294), (65306, 65306), (65342, 65342),
      (65344, 65344), (65392, 65392), (65438, 65439), (65507, 65507), (65529, 65531)]"

definition case_ignorable_table_18 :: "(nat \<times> nat) list" where
  "case_ignorable_table_18 =
     [(66045, 66045), (66272, 66272), (66422, 66426), (67456, 67461), (67463, 67504), (67506,
      67514), (68097, 68099), (68101, 68102), (68108, 68111), (68152, 68154), (68159, 68159),
      (68325, 68326), (68900, 68903), (69291, 69292), (69446, 69456), (69506, 69509)]"

definition case_ignorable_table_19 :: "(nat \<times> nat) list" where
  "case_ignorable_table_19 =
     [(69633, 69633), (69688, 69702), (69744, 69744), (69747, 69748), (69759, 69761), (69811,
      69814), (69817, 69818), (69821, 69821), (69826, 69826), (69837, 69837), (69888, 69890),
      (69927, 69931), (69933, 69940), (70003, 70003), (70016, 70017), (70070, 70078)]"

definition case_ignorable_table_20 :: "(nat \<times> nat) list" where
  "case_ignorable_table_20 =
     [(70089, 70092), (70095, 70095), (70191, 70193), (70196, 70196), (70198, 70199), (70206,
      70206), (70367, 70367), (70371, 70378), (70400, 70401), (70459, 70460), (70464, 70464),
      (70502, 70508), (70512, 70516), (70712, 70719), (70722, 70724), (70726, 70726)]"

definition case_ignorable_table_21 :: "(nat \<times> nat) list" where
  "case_ignorable_table_21 =
     [(70750, 70750), (70835, 70840), (70842, 70842), (70847, 70848), (70850, 70851), (71090,
      71093), (71100, 71101), (71103, 71104), (71132, 71133), (71219, 71226), (71229, 71229),
      (71231, 71232), (71339, 71339), (71341, 71341), (71344, 71349), (71351, 71351)]"

definition case_ignorable_table_22 :: "(nat \<times> nat) list" where
  "case_ignorable_table_22 =
     [(71453, 71455), (71458, 71461), (71463, 71467), (71727, 71735), (71737, 71738), (71995,
      71996), (71998, 71998), (72003, 72003), (72148, 72151), (72154, 72155), (72160, 72160),
      (72193, 72202), (72243, 72248), (72251, 72254), (72263, 72263), (72273, 72278)]"

definition case_ignorable_table_23 :: "(nat \<times> nat) list" where
  "case_ignorable_table_23 =
     [(72281, 72283), (72330, 72342), (72344, 72345), (72752, 72758), (72760, 72765), (72767,
      72767), (72850, 72871), (72874, 72880), (72882, 72883), (72885, 72886), (73009, 73014),
      (73018, 73018), (73020, 73021), (73023, 73029), (73031, 73031), (73104, 73105)]"

definition case_ignorable_table_24 :: "(nat \<times> nat) list" where
  "case_ignorable_table_24 =
     [(73109, 73109), (73111, 73111), (73459, 73460), (78896, 78904), (92912, 92916), (92976,
      92982), (92992, 92995), (94031, 94031), (94095, 94111), (94176, 94177), (94179, 94180),
      (110576, 110579), (110581, 110587), (110589, 110590), (113821, 113822), (113824, 113827)]"

definition case_ignorable_table_25 :: "(nat \<times> nat) list" where
  "case_ignorable_table_25 =
     [(118528, 118573), (118576, 118598), (119143, 119145), (119155, 119170), (119173, 119179),
      (119210, 119213), (119362, 119364), (121344, 121398), (121403, 121452), (121461, 121461),
      (121476, 121476), (121499, 121503), (121505, 121519), (122880, 122886), (122888, 122904),
      (122907, 122913)]"

definition case_ignorable_table_26 :: "(nat \<times> nat) list" where
  "case_ignorable_table_26 =
     [(122915, 122916), (122918, 122922), (123184, 123197), (123566, 123566), (123628, 123631),
      (125136, 125142), (125252, 125259), (127995, 127999), (917505, 917505), (917536, 917631),
      (917760, 917999)]"

definition case_ignorable_table :: "nat \<Rightarrow> (nat \<times> nat) list" where
  "case_ignorable_table c =
     (if c < 1369 then case_ignorable_table_0
      else if c < 1770 then case_ignorable_table_1
      else if c < 2369 then case_ignorable_table_2
      else if c < 2641 then case_ignorable_table_3
      else if c < 2914 then case_ignorable_table_4
      else if c < 3276 then case_ignorable_table_5
      else if c < 3782 then case_ignorable_table_6
      else if c < 4184 then case_ignorable_table_7
      else if c < 6089 then case_ignorable_table_8
      else if c < 6754 then case_ignorable_table_9
      else if c < 7142 then case_ignorable_table_10
      else if c < 8125 then case_ignorable_table_11
      else if c < 8400 then case_ignorable_table_12
      else if c < 42607 then case_ignorable_table_13
      else if c < 43232 then case_ignorable_table_14
      else if c < 43644 then case_ignorable_table_15
      else if c < 64434 then case_ignorable_table_16
      else if c < 66045 then case_ignorable_table_17
      else if c < 69633 then case_ignorable_table_18
      else if c < 70089 then case_ignorable_table_19
      else if c < 70750 then case_ignorable_table_20
      else if c < 71453 then case_ignorable_table_21
      else if c < 72281 then case_ignorable_table_22
      else if c < 73109 then case_ignorable_table_23
      else if c < 118528 then case_ignorable_table_24
      else if c < 122915 then case_ignorable_table_25
      else case_ignorable_table_26)"

text \<open>The code points that are cased (Lowercase, Uppercase or titlecase letter) and not
  case-ignorable, as ascending ranges.\<close>

definition cased_table_0 :: "(nat \<times> nat) list" where
  "cased_table_0 =
     [(65, 90), (97, 122), (170, 170), (181, 181), (186, 186), (192, 214), (216, 246), (248,
      442), (444, 447), (452, 659), (661, 687), (880, 883), (886, 887), (891, 893), (895, 895),
      (902, 902)]"

definition cased_table_1 :: "(nat \<times> nat) list" where
  "cased_table_1 =
     [(904, 906), (908, 908), (910, 929), (931, 1013), (1015, 1153), (1162, 1327), (1329, 1366),
      (1376, 1416), (4256, 4293), (4295, 4295), (4301, 4301), (4304, 4346), (4349, 4351), (5024,
      5109), (5112, 5117), (7296, 7304)]"

definition cased_table_2 :: "(nat \<times> nat) list" where
  "cased_table_2 =
     [(7312, 7354), (7357, 7359), (7424, 7467), (7531, 7543), (7545, 7578), (7680, 7957), (7960,
      7965), (7968, 8005), (8008, 8013), (8016, 8023), (8025, 8025), (8027, 8027), (8029, 8029),
      (8031, 8061), (8064, 8116), (8118, 8124)]"

definition cased_table_3 :: "(nat \<times> nat) list" where
  "cased_table_3 =
     [(8126, 8126), (8130, 8132), (8134, 8140), (8144, 8147), (8150, 8155), (8160, 8172), (8178,
      8180), (8182, 8188), (8450, 8450), (8455, 8455), (8458, 8467), (8469, 8469), (8473, 8477),
      (8484, 8484), (8486, 8486), (8488, 8488)]"

definition cased_table_4 :: "(nat \<times> nat) list" where
  "cased_table_4 =
     [(8490, 8493), (8495, 8500), (8505, 8505), (8508, 8511), (8517, 8521), (8526, 8526), (8544,
      8575), (8579, 8580), (9398, 9449), (11264, 11387), (11390, 11492), (11499, 11502), (11506,
      11507), (11520, 11557), (11559, 11559), (11565, 11565)]"

definition cased_table_5 :: "(nat \<times> nat) list" where
  "cased_table_5 =
     [(42560, 42605), (42624, 42651), (42786, 42863), (42865, 42887), (42891, 42894), (42896,
      42954), (42960, 42961), (42963, 42963), (42965, 42969), (42997, 42998), (43002, 43002),
      (43824, 43866), (43872, 43880), (43888, 43967), (64256, 64262), (64275, 64279)]"

definition cased_table_6 :: "(nat \<times> nat) list" where
  "cased_table_6 =
     [(65313, 65338), (65345, 65370), (66560, 66639), (66736, 66771), (66776, 66811), (66928,
      66938), (66940, 66954), (66956, 66962), (66964, 66965), (66967, 66977), (66979, 66993),
      (66995, 67001), (67003, 67004), (68736, 68786), (68800, 68850), (71840, 71903)]"

definition cased_table_7 :: "(nat \<times> nat) list" where
  "cased_table_7 =
     [(93760, 93823), (119808, 119892), (119894, 119964), (119966, 119967), (119970, 119970),
      (119973, 119974), (119977, 119980), (119982, 119993), (119995, 119995), (119997, 120003),
      (120005, 120069), (120071, 120074), (120077, 120084), (120086, 120092), (120094, 120121),
      (120123, 120126)]"

definition cased_table_8 :: "(nat \<times> nat) list" where
  "cased_table_8 =
     [(120128, 120132), (120134, 120134), (120138, 120144), (120146, 120485), (120488, 120512),
      (120514, 120538), (120540, 120570), (120572, 120596), (120598, 120628), (120630, 120654),
      (120656, 120686), (120688, 120712), (120714, 120744), (120746, 120770), (120772, 120779),
      (122624, 122633)]"

definition cased_table_9 :: "(nat \<times> nat) list" where
  "cased_table_9 =
     [(122635, 122654), (125184, 125251), (127280, 127305), (127312, 127337), (127344, 127369)]"

definition cased_table :: "nat \<Rightarrow> (nat \<times> nat) list" where
  "cased_table c =
     (if c < 904 then cased_table_0
      else if c < 7312 then cased_table_1
      else if c < 8126 then cased_table_2
      else if c < 8490 then cased_table_3
      else if c < 42560 then cased_table_4
      else if c < 65313 then cased_table_5
      else if c < 93760 then cased_table_6
      else if c < 120128 then cased_table_7
      else if c < 122635 then cased_table_8
      else cased_table_9)"

fun in_ranges :: "nat \<Rightarrow> (nat \<times> nat) list \<Rightarrow> bool" where
  "in_ranges c [] = False"
| "in_ranges c ((lo, hi) # ranges) =
     (if c < lo then False else if c \<le> hi then True else in_ranges c ranges)"

fun lookup_lower :: "nat \<Rightarrow> (nat \<times> nat \<times> nat \<times> int) list \<Rightarrow> nat" where
  "lookup_lower c [] = c"
| "lookup_lower c ((lo, hi, step, delta) # entries) =
     (if c < lo then c
      else if c \<le> hi then (if (c - lo) mod step = 0 then nat (int c + delta) else c)
      else lookup_lower c entries)"

definition case_ignorable :: "nat \<Rightarrow> bool" where
  "case_ignorable c = in_ranges c (case_ignorable_table c)"

definition cased :: "nat \<Rightarrow> bool" where
  "cased c = in_ranges c (cased_table c)"

text \<open>\<open>before\<close> holds the code points before the sigma, the nearest first; \<open>after\<close>
  those after it.\<close>

definition final_sigma :: "pystr \<Rightarrow> pystr \<Rightarrow> bool" where
  "final_sigma before after =
     (case dropWhile case_ignorable before of
        [] \<Rightarrow> False
      | b # bs \<Rightarrow>
          cased b \<and>
          (case dropWhile case_ignorable after of [] \<Rightarrow> True | a # rest \<Rightarrow> \<not> cased a))"

definition lower_char :: "pystr \<Rightarrow> nat \<Rightarrow> pystr \<Rightarrow> pystr" where
  "lower_char before c after =
     (if c = 931 then [if final_sigma before after then 962 else 963]
      else if c = 304 then [105, 775]
      else [lookup_lower c (lower_table c)])"

fun lower_from :: "pystr \<Rightarrow> pystr \<Rightarrow> pystr" where
  "lower_from before [] = []"
| "lower_from before (c # after) = lower_char before c after @ lower_from (c # before) after"

definition lower :: "pystr \<Rightarrow> pystr" where
  "lower s = lower_from [] s"

text \<open>\<open>a in b\<close> on two strings: \<open>a\<close> occurs in \<open>b\<close> as a contiguous run.\<close>

fun startswith :: "pystr \<Rightarrow> pystr \<Rightarrow> bool" where
  "startswith s [] = True"
| "startswith [] (p # ps) = False"
| "startswith (c # cs) (p # ps) = (c = p \<and> startswith cs ps)"

fun py_in :: "pystr \<Rightarrow> pystr \<Rightarrow> bool" where
  "py_in a [] = (a = [])"
| "py_in a (c # cs) = (startswith (c # cs) a \<or> py_in a cs)"

text \<open>\<open>sep.join(xs)\<close>.\<close>

fun join :: "pystr \<Rightarrow> pystr list \<Rightarrow> pystr" where
  "join sep [] = []"
| "join sep [x] = x"
| "join sep (x # y # ys) = x @ sep @ join sep (y # ys)"

text \<open>
  \<open>re.sub(pat, rep, s)\<close> for a pattern without metacharacters: every
  non-overlapping occurrence of \<open>pat\<close>, found from the left, is replaced by \<open>rep\<close>.
  The empty pattern matches before every character and at the end.
\<close>

function re_sub_literal :: "pystr \<Rightarrow> pystr \<Rightarrow> pystr \<Rightarrow> pystr" where
  "re_sub_literal pat rep [] = (if pat = [] then rep else [])"
| "re_sub_literal pat rep (c # cs) =
     (if pat = [] then rep @ c # re_sub_literal pat rep cs
      else if startswith (c # cs) pat then rep @ re_sub_literal pat rep (drop (length pat) (c # cs))
      else c # re_sub_literal pat rep cs)"
  by pat_completeness auto
termination
  by (relation "measure (\<lambda>(pat, rep, s). length s)") auto

section \<open>Title normalizer\<close>

text \<open>
  \<open>fix_youtube_title\<close> is
  \<^verbatim>\<open>re.sub(r"(\((.*?)\)|\[(.*?)\]|<U+3010>(.*?)<U+3011>)", "", youtube_title)\<close>,
  where the third pair of delimiters are the code points U+3010 and U+3011.
  Each alternative starts with its own opening bracket, then takes as few characters as
  possible up to the closing bracket of the same kind; \<open>.\<close> does not match a line
  feed (code point 10), so a match never crosses a line break.
\<close>

definition closing_bracket :: "nat \<Rightarrow> nat option" where
  "closing_bracket c =
     (if c = 40 then Some 41
      else if c = 91 then Some 93
      else if c = 12304 then Some 12305
      else None)"

text \<open>
  \<open>lazy_until d s\<close> runs \<open>(.*?)d\<close> on \<open>s\<close>: the rest of \<open>s\<close> after the first
  \<open>d\<close>, or \<open>None\<close> when a line feed or the end of the string comes first.
\<close>

fun lazy_until :: "nat \<Rightarrow> pystr \<Rightarrow> pystr option" where
  "lazy_until d [] = None"
| "lazy_until d (c # cs) =
     (if c = d then Some cs
      else if c = 10 then None
      else lazy_until d cs)"

function fix_youtube_title :: "pystr \<Rightarrow> pystr" where
  "fix_youtube_title [] = []"
| "fix_youtube_title (c # cs) =
     (case closing_bracket c of
        None \<Rightarrow> c # fix_youtube_title cs
      | Some d \<Rightarrow>
          (case lazy_until d cs of
             None \<Rightarrow> c # fix_youtube_title cs
           | Some rest \<Rightarrow> fix_youtube_title rest))"
  by pat_completeness auto
termination
proof (relation "measure length")
  fix c :: nat and cs rest :: pystr and d :: nat
  assume "lazy_until d cs = Some rest"
  then have "length rest \<le> length cs"
    by (induction cs) (auto split: if_splits)
  then show "(rest, c # cs) \<in> measure length"
    by simp
qed auto




section \<open>Input rows and the catalog client\<close>

text \<open>A row of \<open>df_videos\<close>; the field \<open>row_x\<close> is the column \<open>x\<close>. The warehouse
  query delivers \<open>description\<close> already lowercased (\<open>lower(yv.description)\<close>).\<close>

record video_row =
  row_log_id :: int
  row_youtube_playlist_id :: pystr
  row_youtube_title :: pystr
  row_youtube_channel :: pystr
  row_description :: pystr
  row_duration_ms :: int

text \<open>A row of \<open>df_playlists\<close>, columns 0, 1 and 2.\<close>

record playlist_row =
  pr_youtube_playlist_id :: pystr
  pr_playlist_name :: pystr
  pr_spotify_playlist_id :: pystr

text \<open>A track as the catalog returns it: \<open>uri\<close>, \<open>album.uri\<close>, \<open>name\<close>,
  the \<open>name\<close> of each of its \<open>artists\<close>, \<open>duration_ms\<close>.\<close>

record sp_track =
  trk_uri :: pystr
  trk_album_uri :: pystr
  trk_name :: pystr
  trk_artists :: "pystr list"
  trk_duration_ms :: int

text \<open>An album of a search result (\<open>uri\<close>, \<open>name\<close>, artist names) and a track of
  \<open>sp.album(uri)["tracks"]["items"]\<close>.\<close>

record sp_album =
  alb_uri :: pystr
  alb_name :: pystr
  alb_artists :: "pystr list"

record sp_album_track =
  atr_uri :: pystr
  atr_name :: pystr
  atr_duration_ms :: int

text \<open>A playlist of a search result (\<open>uri\<close>, \<open>id\<close>, \<open>name\<close>,
  \<open>owner.display_name\<close>). An entry of \<open>sp.playlist(uri)["tracks"]["items"]\<close> is
  \<open>Some\<close> track, or \<open>None\<close> when its \<open>track\<close> is missing or null.\<close>

record sp_playlist =
  pl_uri :: pystr
  pl_id :: pystr
  pl_name :: pystr
  pl_owner :: pystr

text \<open>The client \<open>sp\<close>: \<open>sp.search(q, limit, type)\<close> for the three types,
  \<open>sp.album(uri)\<close> and \<open>sp.playlist(uri)\<close>, each reduced to the items the code reads.\<close>

record spotify =
  sp_search_track :: "pystr \<Rightarrow> nat \<Rightarrow> sp_track list"
  sp_search_album :: "pystr \<Rightarrow> nat \<Rightarrow> sp_album list"
  sp_album :: "pystr \<Rightarrow> sp_album_track list"
  sp_search_playlist :: "pystr \<Rightarrow> nat \<Rightarrow> sp_playlist list"
  sp_playlist :: "pystr \<Rightarrow> sp_track option list"

section \<open>Match results\<close>

text \<open>The dictionaries returned by \<open>qsearch_track\<close>, \<open>qsearch_album\<close> and
  \<open>qsearch_playlist\<close>; the field \<open>ti_x\<close>, \<open>ai_x\<close> or \<open>pi_x\<close> is the key \<open>x\<close>.\<close>

record track_info =
  ti_track_uri :: pystr
  ti_album_uri :: pystr
  ti_track_title :: pystr
  ti_track_artists :: pystr
  ti_duration_ms :: int
  ti_found_on_try :: nat
  ti_difference_ms :: int
  ti_tracks_in_desc :: nat
  ti_q :: pystr
  ti_search_type_id :: nat

record album_info =
  ai_album_uri :: pystr
  ai_tracks_uri :: "pystr list"
  ai_tracks_info :: "(pystr \<times> pystr \<times> int) list"
  ai_album_title :: pystr
  ai_album_artists :: pystr
  ai_duration_ms :: int
  ai_total_tracks :: nat
  ai_found_on_try :: nat
  ai_difference_ms :: int
  ai_tracks_in_desc :: nat
  ai_q :: pystr
  ai_search_type_id :: nat

record playlist_info =
  pi_playlist_uri :: pystr
  pi_playlist_id :: pystr
  pi_tracks_uri :: "pystr list"
  pi_tracks_info :: "(pystr \<times> pystr \<times> pystr list \<times> int \<times> pystr) list"
  pi_playlist_title :: pystr
  pi_playlist_owner :: pystr
  pi_duration_ms :: int
  pi_total_tracks :: nat
  pi_found_on_try :: nat
  pi_difference_ms :: int
  pi_tracks_in_desc :: nat
  pi_q :: pystr
  pi_search_type_id :: nat

section \<open>Track scorer\<close>

text \<open>The loop over \<open>track["artists"]\<close>: collects the names and counts those whose
  lowercased name occurs in the lowercased video title.\<close>

definition scan_artists :: "video_row \<Rightarrow> pystr list \<Rightarrow> pystr list \<times> nat" where
  "scan_artists row names =
     fold (\<lambda>name (artists, artists_in_title).
             (artists @ [name],
              if py_in (lower name) (lower (row_youtube_title row))
              then artists_in_title + 1 else artists_in_title))
          names ([], 0)"

text \<open>The body of the loop of \<open>qsearch_track\<close> for the candidate number \<open>track_num\<close>:
  \<open>Some\<close> dictionary when the body returns, \<open>None\<close> when the loop goes on.\<close>

definition qsearch_track_item ::
  "video_row \<Rightarrow> pystr \<Rightarrow> nat \<Rightarrow> nat \<Rightarrow> sp_track \<Rightarrow> track_info option" where
  "qsearch_track_item row q search_type_id track_num track =
     (let diff = \<bar>trk_duration_ms track - row_duration_ms row\<bar>;
          (artists, artists_in_title) = scan_artists row (trk_artists track);
          track_in_title =
            (if py_in (lower (trk_name track)) (lower (row_youtube_title row)) then 1 else 0 :: nat)
      in if diff \<le> 5000 \<or> (track_in_title \<noteq> 0 \<and> artists_in_title \<noteq> 0)
         then Some \<lparr>ti_track_uri = trk_uri track,
                     ti_album_uri = trk_album_uri track,
                     ti_track_title = trk_name track,
                     ti_track_artists = join (str ''; '') artists,
                     ti_duration_ms = trk_duration_ms track,
                     ti_found_on_try = track_num,
                     ti_difference_ms = \<bar>diff\<bar>,
                     ti_tracks_in_desc = 1,
                     ti_q = q,
                     ti_search_type_id = search_type_id\<rparr>
         else None)"

fun qsearch_track_loop ::
  "video_row \<Rightarrow> pystr \<Rightarrow> nat \<Rightarrow> nat \<Rightarrow> sp_track list \<Rightarrow> track_info option" where
  "qsearch_track_loop row q search_type_id track_num [] = None"
| "qsearch_track_loop row q search_type_id track_num (track # tracks) =
     (case qsearch_track_item row q search_type_id track_num track of
        Some info \<Rightarrow> Some info
      | None \<Rightarrow> qsearch_track_loop row q search_type_id (Suc track_num) tracks)"

definition qsearch_track ::
  "video_row \<Rightarrow> spotify \<Rightarrow> pystr \<Rightarrow> nat \<Rightarrow> nat \<Rightarrow> track_info option" where
  "qsearch_track row sp q search_type_id limit =
     qsearch_track_loop row q search_type_id 0 (sp_search_track sp q limit)"

section \<open>Track cascade\<close>

text \<open>
  \<open>find_track\<close>. On a channel without the marker \<open>" - Topic"\<close> the first try is the call
  \<^verbatim>\<open>qsearch_track(row, q=row["youtube_title"], search_type_id=1, limit=2)\<close>,
  which leaves out the positional parameter \<open>sp\<close>: Python raises \<open>TypeError\<close> when it
  binds the arguments, before the body of \<open>qsearch_track\<close> runs.
\<close>

definition find_track :: "video_row \<Rightarrow> spotify \<Rightarrow> py_error + track_info option" where
  "find_track row sp =
     (if py_in (str '' - Topic'') (row_youtube_channel row)
      then
        let artist = re_sub_literal (str '' - Topic'') [] (row_youtube_channel row);
            artist = re_sub_literal [39] (str '' '') artist;
            q = str ''track:'' @ row_youtube_title row @ str '' artist:'' @ artist;
            track_info = qsearch_track row sp q 0 2;
            track_info =
              (if track_info = None
               then qsearch_track row sp
                      (str ''track '' @ [34] @ row_youtube_title row @ [34]) 2 2
               else track_info);
            track_info =
              (if track_info = None
               then qsearch_track row sp
                      (re_sub_literal (str '' - Topic'') [] (row_youtube_channel row)
                         @ str '' '' @ row_youtube_title row) 3 2
               else track_info)
        in Inr track_info
      else Inl TypeError)"

section \<open>Album and playlist scorers\<close>

text \<open>
  The loop over the tracks of an album in \<open>qsearch_album\<close>. The state is
  \<open>(tracks_uri, tracks_info, diff, tracks_in_desc, album_length)\<close>; \<open>diff\<close> starts at
  the duration of the video. The title is lowercased, the description is taken as it is.
\<close>

definition scan_album ::
  "video_row \<Rightarrow> sp_album_track list
     \<Rightarrow> pystr list \<times> (pystr \<times> pystr \<times> int) list \<times> int \<times> nat \<times> int" where
  "scan_album row tracks =
     fold (\<lambda>track (tracks_uri, tracks_info, diff, tracks_in_desc, album_length).
             (tracks_uri @ [atr_uri track],
              tracks_info @ [(atr_uri track, atr_name track, atr_duration_ms track)],
              diff - atr_duration_ms track,
              (if py_in (lower (atr_name track)) (row_description row)
               then tracks_in_desc + 1 else tracks_in_desc),
              album_length + atr_duration_ms track))
          tracks ([], [], row_duration_ms row, 0, 0)"

text \<open>
  \<open>percent_in_desc = (tracks_in_desc / len(tracks_uri)) * 100\<close>. Python divides two
  integers as floats and raises \<open>ZeroDivisionError\<close> when the divisor is 0. The quotient
  is modelled by the exact rational. The code uses it in the comparison with 60 only (and
  in a log message); there the float agrees with the rational whenever the quotient is at
  least 3/5 and whenever the number of tracks is below \<open>10\<^sup>1\<^sup>5\<close>.
\<close>

definition percent_in_desc :: "nat \<Rightarrow> nat \<Rightarrow> py_error + rat" where
  "percent_in_desc tracks_in_desc total_tracks =
     (if total_tracks = 0 then Inl ZeroDivisionError
      else Inr ((of_nat tracks_in_desc / of_nat total_tracks) * 100))"

definition max_diff :: int where
  "max_diff = 40000"

text \<open>The body of the loop of \<open>qsearch_album\<close> for the candidate number \<open>album_num\<close>,
  given the tracks that \<open>sp.album(album["uri"])\<close> returned.\<close>

definition qsearch_album_item ::
  "video_row \<Rightarrow> pystr \<Rightarrow> nat \<Rightarrow> nat \<Rightarrow> sp_album \<Rightarrow> sp_album_track list
     \<Rightarrow> py_error + album_info option" where
  "qsearch_album_item row q search_type_id album_num album tracks =
     (case scan_album row tracks of
        (tracks_uri, tracks_info, diff, tracks_in_desc, album_length) \<Rightarrow>
          (case percent_in_desc tracks_in_desc (length tracks_uri) of
             Inl e \<Rightarrow> Inl e
           | Inr percent \<Rightarrow>
               if \<bar>diff\<bar> < max_diff \<or> (length tracks_uri \<ge> 4 \<and> percent \<ge> 60)
               then Inr (Some \<lparr>ai_album_uri = alb_uri album,
                                ai_tracks_uri = tracks_uri,
                                ai_tracks_info = tracks_info,
                                ai_album_title = alb_name album,
                                ai_album_artists = join (str ''; '') (alb_artists album),
                                ai_duration_ms = album_length,
                                ai_total_tracks = length tracks_uri,
                                ai_found_on_try = album_num,
                                ai_difference_ms = \<bar>diff\<bar>,
                                ai_tracks_in_desc = tracks_in_desc,
                                ai_q = q,
                                ai_search_type_id = search_type_id\<rparr>)
               else Inr None))"

fun qsearch_album_loop ::
  "video_row \<Rightarrow> spotify \<Rightarrow> pystr \<Rightarrow> nat \<Rightarrow> nat \<Rightarrow> sp_album list
     \<Rightarrow> py_error + album_info option" where
  "qsearch_album_loop row sp q search_type_id album_num [] = Inr None"
| "qsearch_album_loop row sp q search_type_id album_num (album # albums) =
     (case qsearch_album_item row q search_type_id album_num album (sp_album sp (alb_uri album)) of
        Inl e \<Rightarrow> Inl e
      | Inr (Some info) \<Rightarrow> Inr (Some info)
      | Inr None \<Rightarrow> qsearch_album_loop row sp q search_type_id (Suc album_num) albums)"

definition qsearch_album ::
  "video_row \<Rightarrow> spotify \<Rightarrow> pystr \<Rightarrow> nat \<Rightarrow> nat \<Rightarrow> py_error + album_info option" where
  "qsearch_album row sp q search_type_id limit =
     qsearch_album_loop row sp q search_type_id 0 (sp_search_album sp q limit)"

text \<open>\<open>if not info: info = next\<close>, with an error of the first search passed on.\<close>

definition if_not ::
  "py_error + 'a option \<Rightarrow> py_error + 'a option \<Rightarrow> py_error + 'a option" where
  "if_not info next_try =
     (case info of Inl e \<Rightarrow> Inl e | Inr (Some i) \<Rightarrow> Inr (Some i) | Inr None \<Rightarrow> next_try)"

definition find_album :: "video_row \<Rightarrow> spotify \<Rightarrow> py_error + album_info option" where
  "find_album row sp =
     (let youtube_title = fix_youtube_title (row_youtube_title row) in
      if_not (qsearch_album row sp youtube_title 0 1)
        (if_not (qsearch_album row sp (str ''album '' @ [34] @ youtube_title @ [34]) 1 1)
           (qsearch_album row sp (row_youtube_title row) 2 1)))"

text \<open>
  The loop over the entries of a playlist in \<open>qsearch_playlist\<close>: an entry without a
  track is passed over; the state is
  \<open>(tracks_uri, tracks_info, diff, tracks_in_desc, playlist_length)\<close>.
\<close>

definition scan_playlist ::
  "video_row \<Rightarrow> sp_track option list
     \<Rightarrow> pystr list \<times> (pystr \<times> pystr \<times> pystr list \<times> int \<times> pystr) list \<times> int \<times> nat \<times> int" where
  "scan_playlist row entries =
     fold (\<lambda>entry (tracks_uri, tracks_info, diff, tracks_in_desc, playlist_length).
             case entry of
               None \<Rightarrow> (tracks_uri, tracks_info, diff, tracks_in_desc, playlist_length)
             | Some track \<Rightarrow>
                 (tracks_uri @ [trk_uri track],
                  tracks_info @ [(trk_uri track, trk_name track, trk_artists track,
                                  trk_duration_ms track, trk_album_uri track)],
                  diff - trk_duration_ms track,
                  (if py_in (lower (trk_name track)) (row_description row)
                   then tracks_in_desc + 1 else tracks_in_desc),
                  playlist_length + trk_duration_ms track))
          entries ([], [], row_duration_ms row, 0, 0)"

definition qsearch_playlist_item ::
  "video_row \<Rightarrow> pystr \<Rightarrow> nat \<Rightarrow> nat \<Rightarrow> sp_playlist \<Rightarrow> sp_track option list
     \<Rightarrow> py_error + playlist_info option" where
  "qsearch_playlist_item row q search_type_id playlist_num playlist entries =
     (case scan_playlist row entries of
        (tracks_uri, tracks_info, diff, tracks_in_desc, playlist_length) \<Rightarrow>
          (let total_tracks = length tracks_uri in
           case percent_in_desc tracks_in_desc total_tracks of
             Inl e \<Rightarrow> Inl e
           | Inr percent \<Rightarrow>
               if \<bar>diff\<bar> < max_diff \<or> (total_tracks \<ge> 4 \<and> percent \<ge> 60)
               then Inr (Some \<lparr>pi_playlist_uri = pl_uri playlist,
                                pi_playlist_id = pl_id playlist,
                                pi_tracks_uri = tracks_uri,
                                pi_tracks_info = tracks_info,
                                pi_playlist_title = pl_name playlist,
                                pi_playlist_owner = pl_owner playlist,
                                pi_duration_ms = playlist_length,
                                pi_total_tracks = total_tracks,
                                pi_found_on_try = playlist_num,
                                pi_difference_ms = \<bar>diff\<bar>,
                                pi_tracks_in_desc = tracks_in_desc,
                                pi_q = q,
                                pi_search_type_id = search_type_id\<rparr>)
               else Inr None))"

fun qsearch_playlist_loop ::
  "video_row \<Rightarrow> spotify \<Rightarrow> pystr \<Rightarrow> nat \<Rightarrow> nat \<Rightarrow> sp_playlist list
     \<Rightarrow> py_error + playlist_info option" where
  "qsearch_playlist_loop row sp q search_type_id playlist_num [] = Inr None"
| "qsearch_playlist_loop row sp q search_type_id playlist_num (playlist # playlists) =
     (case qsearch_playlist_item row q search_type_id playlist_num playlist
             (sp_playlist sp (pl_uri playlist)) of
        Inl e \<Rightarrow> Inl e
      | Inr (Some info) \<Rightarrow> Inr (Some info)
      | Inr None \<Rightarrow> qsearch_playlist_loop row sp q search_type_id (Suc playlist_num) playlists)"

definition qsearch_playlist ::
  "video_row \<Rightarrow> spotify \<Rightarrow> pystr \<Rightarrow> nat \<Rightarrow> nat \<Rightarrow> py_error + playlist_info option" where
  "qsearch_playlist row sp q search_type_id limit =
     qsearch_playlist_loop row sp q search_type_id 0 (sp_search_playlist sp q limit)"

definition find_other_playlist ::
  "video_row \<Rightarrow> spotify \<Rightarrow> py_error + playlist_info option" where
  "find_other_playlist row sp =
     if_not (qsearch_playlist row sp (row_youtube_title row) 1 2)
       (if_not (qsearch_playlist row sp
                  (str ''playlist '' @ [34] @ row_youtube_title row @ [34]) 2 2)
          (qsearch_playlist row sp
             (row_youtube_channel row @ str '' '' @ row_youtube_title row) 3 2))"

section \<open>Run state\<close>

text \<open>An entry of \<open>log_tracks\<close>, \<open>log_albums\<close> or \<open>log_playlists_others\<close>: the tuple
  \<open>(log_id, uri, user_playlist_id, found_on_try, difference_ms, tracks_in_desc, q,
  search_type_id, status)\<close>.\<close>

record log_entry =
  le_log_id :: int
  le_uri :: pystr
  le_user_playlist_id :: pystr
  le_found_on_try :: nat
  le_difference_ms :: int
  le_tracks_in_desc :: nat
  le_q :: pystr
  le_search_type_id :: nat
  le_status :: pystr

text \<open>
  The module-level dictionaries and lists. A value of \<open>distinct_tracks\<close> is the tuple
  \<open>(album_uri, playlist_uri, track_title, track_artists, duration_ms)\<close>, whose
  \<open>playlist_uri\<close> is \<open>None\<close> or a string. \<open>playlist_items\<close> is a
  \<open>defaultdict(list)\<close>.
\<close>

record run_state =
  distinct_albums :: "pystr \<rightharpoonup> pystr \<times> pystr \<times> int \<times> nat"
  distinct_playlists_others :: "pystr \<rightharpoonup> pystr \<times> pystr \<times> int \<times> nat"
  distinct_tracks :: "pystr \<rightharpoonup> pystr \<times> pystr option \<times> pystr \<times> pystr \<times> int"
  albums_to_like :: "pystr list"
  playlists_to_like :: "pystr list"
  tracks_to_like :: "pystr list"
  playlist_items :: "pystr \<rightharpoonup> pystr list"
  log_albums :: "log_entry list"
  log_playlists_others :: "log_entry list"
  log_tracks :: "log_entry list"

definition empty_state :: run_state where
  "empty_state =
     \<lparr>distinct_albums = Map.empty, distinct_playlists_others = Map.empty,
      distinct_tracks = Map.empty, albums_to_like = [], playlists_to_like = [],
      tracks_to_like = [], playlist_items = Map.empty, log_albums = [],
      log_playlists_others = [], log_tracks = []\<rparr>"

definition saved :: pystr where
  "saved = str ''saved''"

definition skipped_during :: pystr where
  "skipped_during = str ''skipped (saved during the run)''"

definition skipped_before :: pystr where
  "skipped_before = str ''skipped (saved before the run)''"

text \<open>\<open>playlist_items[k]\<close>: the list under \<open>k\<close>, a new empty list when \<open>k\<close> is absent.\<close>

definition dd_get :: "(pystr \<rightharpoonup> pystr list) \<Rightarrow> pystr \<Rightarrow> pystr list" where
  "dd_get m k = (case m k of None \<Rightarrow> [] | Some items \<Rightarrow> items)"

text \<open>
  \<open>items.extend(uri for uri in uris if uri not in items)\<close>. The generator is consumed
  while the list grows: each \<open>uri\<close> is tested against the list as extended so far.
\<close>

fun extend_if_absent :: "pystr list \<Rightarrow> pystr list \<Rightarrow> pystr list" where
  "extend_if_absent items [] = items"
| "extend_if_absent items (uri # uris) =
     extend_if_absent (if uri \<in> set items then items else items @ [uri]) uris"

text \<open>\<open>(uri, user_playlist_id) in ((uri, playlist_id) for _, uri, playlist_id, *_ in log)\<close>.\<close>

definition in_log :: "pystr \<Rightarrow> pystr \<Rightarrow> log_entry list \<Rightarrow> bool" where
  "in_log uri user_playlist_id entries =
     ((uri, user_playlist_id) \<in> set (map (\<lambda>e. (le_uri e, le_user_playlist_id e)) entries))"

section \<open>Collector\<close>

text \<open>The collectors return the status and the state after their writes. The parameter
  \<open>video_title\<close> is used for the log messages only.\<close>

definition collect_track ::
  "track_info \<Rightarrow> pystr \<Rightarrow> pystr \<Rightarrow> pystr list \<Rightarrow> run_state \<Rightarrow> pystr \<times> run_state" where
  "collect_track track_info user_playlist_id video_title liked_tracks_uri s =
     (if in_log (ti_track_uri track_info) user_playlist_id (log_tracks s)
      then (skipped_during, s)
      else if ti_track_uri track_info \<in> set liked_tracks_uri \<and> user_playlist_id = str ''0''
      then (skipped_before, s)
      else
        (saved,
         if user_playlist_id \<noteq> str ''0''
         then
           (let items = dd_get (playlist_items s) user_playlist_id in
            if ti_track_uri track_info \<notin> set items
            then s\<lparr>playlist_items :=
                     (playlist_items s)(user_playlist_id \<mapsto> items @ [ti_track_uri track_info])\<rparr>
            else s\<lparr>playlist_items := (playlist_items s)(user_playlist_id \<mapsto> items)\<rparr>)
         else s\<lparr>tracks_to_like := tracks_to_like s @ [ti_track_uri track_info]\<rparr>))"

definition collect_album ::
  "album_info \<Rightarrow> pystr \<Rightarrow> pystr \<Rightarrow> pystr list \<Rightarrow> run_state \<Rightarrow> pystr \<times> run_state" where
  "collect_album album_info user_playlist_id video_title liked_albums_uri s =
     (if in_log (ai_album_uri album_info) user_playlist_id (log_albums s)
      then (skipped_during, s)
      else if ai_album_uri album_info \<in> set liked_albums_uri \<and> user_playlist_id = str ''0''
      then (skipped_before, s)
      else
        (saved,
         if user_playlist_id \<noteq> str ''0''
         then s\<lparr>playlist_items :=
                  (playlist_items s)(user_playlist_id \<mapsto>
                     extend_if_absent (dd_get (playlist_items s) user_playlist_id)
                       (ai_tracks_uri album_info))\<rparr>
         else s\<lparr>albums_to_like := albums_to_like s @ [ai_album_uri album_info]\<rparr>))"

definition collect_other_playlist ::
  "playlist_info \<Rightarrow> pystr \<Rightarrow> pystr \<Rightarrow> run_state \<Rightarrow> pystr \<times> run_state" where
  "collect_other_playlist playlist_info user_playlist_id video_title s =
     (if \<not> in_log (pi_playlist_uri playlist_info) user_playlist_id (log_playlists_others s)
      then
        (saved,
         if user_playlist_id \<noteq> str ''0''
         then s\<lparr>playlist_items :=
                  (playlist_items s)(user_playlist_id \<mapsto>
                     extend_if_absent (dd_get (playlist_items s) user_playlist_id)
                       (pi_tracks_uri playlist_info))\<rparr>
         else s\<lparr>playlists_to_like := playlists_to_like s @ [pi_playlist_id playlist_info]\<rparr>)
      else (skipped_during, s))"

section \<open>Registry and ledger\<close>

text \<open>
  \<open>not distinct_tracks.get(uri) or not distinct_tracks[uri][1]\<close>: the entry is absent,
  or its \<open>playlist_uri\<close> is \<open>None\<close> or the empty string (both are false in Python; a
  tuple of five is true).
\<close>

definition no_playlist_uri ::
  "(pystr \<rightharpoonup> pystr \<times> pystr option \<times> pystr \<times> pystr \<times> int) \<Rightarrow> pystr \<Rightarrow> bool" where
  "no_playlist_uri tracks uri =
     (case tracks uri of
        None \<Rightarrow> True
      | Some (album_uri, playlist_uri, rest) \<Rightarrow>
          (case playlist_uri of None \<Rightarrow> True | Some p \<Rightarrow> p = []))"

definition log_track :: "track_info \<Rightarrow> pystr \<Rightarrow> int \<Rightarrow> pystr \<Rightarrow> run_state \<Rightarrow> run_state" where
  "log_track track_info user_playlist_id log_id status s =
     (let s1 =
        (if no_playlist_uri (distinct_tracks s) (ti_track_uri track_info)
         then s\<lparr>distinct_tracks :=
                  (distinct_tracks s)(ti_track_uri track_info \<mapsto>
                     (ti_album_uri track_info, None, ti_track_title track_info,
                      ti_track_artists track_info, ti_duration_ms track_info))\<rparr>
         else s)
      in s1\<lparr>log_tracks := log_tracks s1 @
               [\<lparr>le_log_id = log_id,
                 le_uri = ti_track_uri track_info,
                 le_user_playlist_id = user_playlist_id,
                 le_found_on_try = ti_found_on_try track_info,
                 le_difference_ms = ti_difference_ms track_info,
                 le_tracks_in_desc = ti_tracks_in_desc track_info,
                 le_q = ti_q track_info,
                 le_search_type_id = ti_search_type_id track_info,
                 le_status = status\<rparr>]\<rparr>)"

text \<open>The loop of \<open>log_album\<close> over \<open>album_info["tracks_info"]\<close>, on \<open>distinct_tracks\<close>.\<close>

definition log_album_tracks ::
  "album_info \<Rightarrow> (pystr \<rightharpoonup> pystr \<times> pystr option \<times> pystr \<times> pystr \<times> int)
     \<Rightarrow> (pystr \<rightharpoonup> pystr \<times> pystr option \<times> pystr \<times> pystr \<times> int)" where
  "log_album_tracks album_info tracks =
     fold (\<lambda>(track_uri, title, duration_ms) tracks.
             if no_playlist_uri tracks track_uri
             then tracks(track_uri \<mapsto>
                    (ai_album_uri album_info, None, title, ai_album_artists album_info,
                     duration_ms))
             else tracks)
          (ai_tracks_info album_info) tracks"

definition log_album :: "album_info \<Rightarrow> pystr \<Rightarrow> int \<Rightarrow> pystr \<Rightarrow> run_state \<Rightarrow> run_state" where
  "log_album album_info user_playlist_id log_id status s =
     s\<lparr>distinct_albums :=
         (distinct_albums s)(ai_album_uri album_info \<mapsto>
            (ai_album_title album_info, ai_album_artists album_info,
             ai_duration_ms album_info, ai_total_tracks album_info)),
       distinct_tracks := log_album_tracks album_info (distinct_tracks s),
       log_albums := log_albums s @
         [\<lparr>le_log_id = log_id,
           le_uri = ai_album_uri album_info,
           le_user_playlist_id = user_playlist_id,
           le_found_on_try = ai_found_on_try album_info,
           le_difference_ms = ai_difference_ms album_info,
           le_tracks_in_desc = ai_tracks_in_desc album_info,
           le_q = ai_q album_info,
           le_search_type_id = ai_search_type_id album_info,
           le_status = status\<rparr>]\<rparr>"

text \<open>The loop of \<open>log_other_playlist\<close> over \<open>playlist_info["tracks_info"]\<close>: every
  entry is written, with the URI of this playlist.\<close>

definition log_other_playlist_tracks ::
  "playlist_info \<Rightarrow> (pystr \<rightharpoonup> pystr \<times> pystr option \<times> pystr \<times> pystr \<times> int)
     \<Rightarrow> (pystr \<rightharpoonup> pystr \<times> pystr option \<times> pystr \<times> pystr \<times> int)" where
  "log_other_playlist_tracks playlist_info tracks =
     fold (\<lambda>(track_uri, title, artists, duration_ms, album_uri) tracks.
             tracks(track_uri \<mapsto>
               (album_uri, Some (pi_playlist_uri playlist_info), title,
                join (str ''; '') artists, duration_ms)))
          (pi_tracks_info playlist_info) tracks"

definition log_other_playlist ::
  "playlist_info \<Rightarrow> pystr \<Rightarrow> int \<Rightarrow> pystr \<Rightarrow> run_state \<Rightarrow> run_state" where
  "log_other_playlist playlist_info user_playlist_id log_id status s =
     s\<lparr>distinct_playlists_others :=
         (distinct_playlists_others s)(pi_playlist_uri playlist_info \<mapsto>
            (pi_playlist_title playlist_info, pi_playlist_owner playlist_info,
             pi_duration_ms playlist_info, pi_total_tracks playlist_info)),
       distinct_tracks := log_other_playlist_tracks playlist_info (distinct_tracks s),
       log_playlists_others := log_playlists_others s @
         [\<lparr>le_log_id = log_id,
           le_uri = pi_playlist_uri playlist_info,
           le_user_playlist_id = user_playlist_id,
           le_found_on_try = pi_found_on_try playlist_info,
           le_difference_ms = pi_difference_ms playlist_info,
           le_tracks_in_desc = pi_tracks_in_desc playlist_info,
           le_q = pi_q playlist_info,
           le_search_type_id = pi_search_type_id playlist_info,
           le_status = status\<rparr>]\<rparr>"

section \<open>Resolver\<close>

text \<open>
  \<open>get_user_playlist_id\<close> selects the rows of \<open>df_playlists\<close> with the
  \<open>youtube_playlist_id\<close> of the video and reads \<open>iloc[0, 2]\<close>: column 2 of the first
  selected row. On an empty selection \<open>iloc\<close> raises \<open>IndexError\<close>.
\<close>

definition get_user_playlist_id :: "video_row \<Rightarrow> playlist_row list \<Rightarrow> py_error + pystr" where
  "get_user_playlist_id row df_playlists =
     (case filter (\<lambda>p. pr_youtube_playlist_id p = row_youtube_playlist_id row) df_playlists of
        [] \<Rightarrow> Inl IndexError
      | p # ps \<Rightarrow> Inr (pr_spotify_playlist_id p))"

text \<open>
  The two calls that \<open>prepare_spotify\<close> makes for a match:
  \<open>status = collect_x(...)\<close>, then \<open>log_x(..., status)\<close>.
\<close>

definition collect_log_track ::
  "track_info \<Rightarrow> pystr \<Rightarrow> pystr \<Rightarrow> pystr list \<Rightarrow> int \<Rightarrow> run_state \<Rightarrow> run_state" where
  "collect_log_track track_info user_playlist_id video_title liked_tracks_uri log_id s =
     (case collect_track track_info user_playlist_id video_title liked_tracks_uri s of
        (status, s1) \<Rightarrow> log_track track_info user_playlist_id log_id status s1)"

definition collect_log_album ::
  "album_info \<Rightarrow> pystr \<Rightarrow> pystr \<Rightarrow> pystr list \<Rightarrow> int \<Rightarrow> run_state \<Rightarrow> run_state" where
  "collect_log_album album_info user_playlist_id video_title liked_albums_uri log_id s =
     (case collect_album album_info user_playlist_id video_title liked_albums_uri s of
        (status, s1) \<Rightarrow> log_album album_info user_playlist_id log_id status s1)"

definition collect_log_other_playlist ::
  "playlist_info \<Rightarrow> pystr \<Rightarrow> pystr \<Rightarrow> int \<Rightarrow> run_state \<Rightarrow> run_state" where
  "collect_log_other_playlist playlist_info user_playlist_id video_title log_id s =
     (case collect_other_playlist playlist_info user_playlist_id video_title s of
        (status, s1) \<Rightarrow> log_other_playlist playlist_info user_playlist_id log_id status s1)"

text \<open>
  \<open>prepare_spotify\<close>. \<open>threshold_ms\<close> is the environment variable \<open>THRESHOLD_MS\<close> read
  as an integer, \<open>None\<close> when it is unset or empty. An error leaves the function at once.
\<close>

definition prepare_spotify ::
  "video_row \<Rightarrow> spotify \<Rightarrow> playlist_row list \<Rightarrow> pystr list \<Rightarrow> pystr list \<Rightarrow> int option
     \<Rightarrow> run_state \<Rightarrow> py_error + run_state" where
  "prepare_spotify row sp df_playlists liked_albums_uri liked_tracks_uri threshold_ms s =
     (case get_user_playlist_id row df_playlists of
        Inl e \<Rightarrow> Inl e
      | Inr user_playlist_id \<Rightarrow>
          if (case threshold_ms of None \<Rightarrow> False | Some t \<Rightarrow> row_duration_ms row \<ge> t)
          then
            (case find_album row sp of
               Inl e \<Rightarrow> Inl e
             | Inr (Some album_info) \<Rightarrow>
                 Inr (collect_log_album album_info user_playlist_id (row_youtube_title row)
                        liked_albums_uri (row_log_id row) s)
             | Inr None \<Rightarrow>
                 (case find_other_playlist row sp of
                    Inl e \<Rightarrow> Inl e
                  | Inr (Some playlist_info) \<Rightarrow>
                      Inr (collect_log_other_playlist playlist_info user_playlist_id
                             (row_youtube_title row) (row_log_id row) s)
                  | Inr None \<Rightarrow> Inr s))
          else
            (case find_track row sp of
               Inl e \<Rightarrow> Inl e
             | Inr (Some track_info) \<Rightarrow>
                 Inr (collect_log_track track_info user_playlist_id (row_youtube_title row)
                        liked_tracks_uri (row_log_id row) s)
             | Inr None \<Rightarrow> Inr s))"

section \<open>Properties of the run state, in the words of the specification\<close>


text \<open>No staged list of the playlist staging map holds a track URI twice.\<close>

definition staging_distinct :: "run_state \<Rightarrow> bool" where
  "staging_distinct s = (\<forall>k items. playlist_items s k = Some items \<longrightarrow> distinct items)"

text \<open>The owning-playlist reference of a track in the registry: \<open>None\<close> when the track
  is absent or its reference is null.\<close>

definition playlist_uri_of ::
  "(pystr \<rightharpoonup> pystr \<times> pystr option \<times> pystr \<times> pystr \<times> int) \<Rightarrow> pystr \<Rightarrow> pystr option" where
  "playlist_uri_of tracks uri =
     (case tracks uri of None \<Rightarrow> None | Some (album_uri, playlist_uri, rest) \<Rightarrow> playlist_uri)"

section \<open>The scoring rules in the words of the specification\<close>






section \<open>Example data\<close>

text \<open>A video of one hour; album tracks of one minute each.\<close>

definition example_row :: video_row where
  "example_row =
     \<lparr>row_log_id = 1, row_youtube_playlist_id = str ''0'', row_youtube_title = str ''x - b'',
      row_youtube_channel = str ''x'', row_description = str ''a b c'',
      row_duration_ms = 3600000\<rparr>"











definition example_playlist :: sp_playlist where
  "example_playlist =
     \<lparr>pl_uri = str ''playlist:1'', pl_id = str ''1'', pl_name = str ''P'', pl_owner = str ''o''\<rparr>"

text \<open>A catalog whose searches find nothing.\<close>

definition example_sp :: spotify where
  "example_sp =
     \<lparr>sp_search_track = (\<lambda>q limit. []), sp_search_album = (\<lambda>q limit. []),
      sp_album = (\<lambda>uri. []), sp_search_playlist = (\<lambda>q limit. []),
      sp_playlist = (\<lambda>uri. [])\<rparr>"

text \<open>A catalog that finds no album and, for every query, the example playlist, which
  has no entries.\<close>

definition example_sp_empty_playlist :: spotify where
  "example_sp_empty_playlist =
     example_sp\<lparr>sp_search_playlist := (\<lambda>q limit. [example_playlist])\<rparr>"

text \<open>Matches for the examples of the collector: two albums that share the track
  \<open>t:b\<close>, a track, and two playlists that share the track \<open>t:b\<close>.\<close>

definition example_album_info :: "string \<Rightarrow> string list \<Rightarrow> album_info" where
  "example_album_info name tracks =
     \<lparr>ai_album_uri = str ''album:'' @ str name,
      ai_tracks_uri = map (\<lambda>t. str ''t:'' @ str t) tracks,
      ai_tracks_info = map (\<lambda>t. (str ''t:'' @ str t, str t, 60000)) tracks,
      ai_album_title = str name, ai_album_artists = str ''X'',
      ai_duration_ms = 60000 * int (length tracks), ai_total_tracks = length tracks,
      ai_found_on_try = 0, ai_difference_ms = 0, ai_tracks_in_desc = 0,
      ai_q = str name, ai_search_type_id = 0\<rparr>"

definition example_track_info :: track_info where
  "example_track_info =
     \<lparr>ti_track_uri = str ''t:b'', ti_album_uri = str ''album:1'', ti_track_title = str ''b'',
      ti_track_artists = str ''X'', ti_duration_ms = 60000, ti_found_on_try = 0,
      ti_difference_ms = 0, ti_tracks_in_desc = 1, ti_q = str ''b'', ti_search_type_id = 1\<rparr>"

definition example_playlist_info :: "string \<Rightarrow> string list \<Rightarrow> playlist_info" where
  "example_playlist_info name tracks =
     \<lparr>pi_playlist_uri = str ''playlist:'' @ str name, pi_playlist_id = str name,
      pi_tracks_uri = map (\<lambda>t. str ''t:'' @ str t) tracks,
      pi_tracks_info = map (\<lambda>t. (str ''t:'' @ str t, str t, [str ''X''], 60000, str ''album:1'')) tracks,
      pi_playlist_title = str name, pi_playlist_owner = str ''o'',
      pi_duration_ms = 60000 * int (length tracks), pi_total_tracks = length tracks,
      pi_found_on_try = 0, pi_difference_ms = 0, pi_tracks_in_desc = 0,
      pi_q = str name, pi_search_type_id = 1\<rparr>"

section \<open>Evaluating \<open>lower\<close>\<close>



section \<open>The normalizer: what it removes, idempotence\<close>




























section \<open>Scorers\<close>










lemma qsearch_album_item_no_tracks:
  "qsearch_album_item row q search_type_id album_num album [] = Inl ZeroDivisionError"
  by (simp add: qsearch_album_item_def scan_album_def percent_in_desc_def)

lemma scan_playlist_no_tracks:
  "fold (\<lambda>entry (tracks_uri, tracks_info, diff, tracks_in_desc, playlist_length).
             case entry of
               None \<Rightarrow> (tracks_uri, tracks_info, diff, tracks_in_desc, playlist_length)
             | Some track \<Rightarrow> f track (tracks_uri, tracks_info, diff, tracks_in_desc, playlist_length))
          (replicate k None) st = st"
  by (induction k) (simp_all add: split_def)

lemma qsearch_playlist_item_no_tracks:
  "qsearch_playlist_item row q search_type_id playlist_num playlist (replicate k None)
     = Inl ZeroDivisionError"
proof -
  have "scan_playlist row (replicate k None) = ([], [], row_duration_ms row, 0, 0)"
    unfolding scan_playlist_def
    by (induction k) simp_all
  then show ?thesis
    by (simp add: qsearch_playlist_item_def percent_in_desc_def)
qed






text \<open>
  C3 fails on the code: the division is not guarded. For an album without tracks, and for
  a playlist none of whose entries holds a track, the scorer raises \<open>ZeroDivisionError\<close>.
  On the example video of one hour, with a threshold of ten minutes and a catalog whose
  playlist search returns a playlist without entries, the error leaves \<open>prepare_spotify\<close>.
\<close>

theorem C3_zero_tracks_raise:
  "qsearch_album_item row q search_type_id num album [] = Inl ZeroDivisionError
   \<and> qsearch_playlist_item row q search_type_id num playlist (replicate k None)
       = Inl ZeroDivisionError
   \<and> prepare_spotify example_row example_sp_empty_playlist
         [\<lparr>pr_youtube_playlist_id = str ''0'', pr_playlist_name = str ''n'',
           pr_spotify_playlist_id = str ''0''\<rparr>] [] [] (Some 600000) empty_state
       = Inl ZeroDivisionError"
proof -
  have "find_album example_row example_sp_empty_playlist = Inr None"
    by (simp add: find_album_def qsearch_album_def if_not_def example_sp_empty_playlist_def
        example_sp_def)
  moreover have "find_other_playlist example_row example_sp_empty_playlist
                   = Inl ZeroDivisionError"
    using qsearch_playlist_item_no_tracks[of example_row _ _ _ example_playlist 0]
    by (simp add: find_other_playlist_def qsearch_playlist_def if_not_def
        example_sp_empty_playlist_def example_sp_def)
  ultimately have "prepare_spotify example_row example_sp_empty_playlist
         [\<lparr>pr_youtube_playlist_id = str ''0'', pr_playlist_name = str ''n'',
           pr_spotify_playlist_id = str ''0''\<rparr>] [] [] (Some 600000) empty_state
       = Inl ZeroDivisionError"
    by (simp add: prepare_spotify_def get_user_playlist_id_def example_row_def)
  then show ?thesis
    by (simp add: qsearch_album_item_no_tracks qsearch_playlist_item_no_tracks)
qed

section \<open>Collector and ledger\<close>




















lemma distinct_extend_if_absent:
  "distinct items \<Longrightarrow> distinct (extend_if_absent items uris)"
  by (induction uris arbitrary: items) simp_all

lemma staging_distinct_dd_get:
  "staging_distinct s \<Longrightarrow> distinct (dd_get (playlist_items s) k)"
  by (auto simp add: staging_distinct_def dd_get_def split: option.splits)

lemma staging_distinct_update:
  "staging_distinct s \<Longrightarrow> distinct items \<Longrightarrow>
   staging_distinct (s\<lparr>playlist_items := (playlist_items s)(k \<mapsto> items)\<rparr>)"
  by (simp add: staging_distinct_def)

lemma staging_distinct_collect_track:
  assumes "staging_distinct s"
  shows "staging_distinct (snd (collect_track t d vt liked s))"
proof -
  have items: "distinct (dd_get (playlist_items s) d)"
    by (rule staging_distinct_dd_get[OF assms])
  have like: "staging_distinct (s\<lparr>tracks_to_like := tracks_to_like s @ [ti_track_uri t]\<rparr>)"
    using assms by (simp add: staging_distinct_def)
  show ?thesis
    using assms items like
    by (simp add: collect_track_def Let_def staging_distinct_update)
qed

lemma staging_distinct_collect_album:
  assumes "staging_distinct s"
  shows "staging_distinct (snd (collect_album a d vt liked s))"
proof -
  have items: "distinct (extend_if_absent (dd_get (playlist_items s) d) (ai_tracks_uri a))"
    by (rule distinct_extend_if_absent[OF staging_distinct_dd_get[OF assms]])
  have like: "staging_distinct (s\<lparr>albums_to_like := albums_to_like s @ [ai_album_uri a]\<rparr>)"
    using assms by (simp add: staging_distinct_def)
  show ?thesis
    using assms items like
    by (simp add: collect_album_def staging_distinct_update)
qed

lemma staging_distinct_collect_other_playlist:
  assumes "staging_distinct s"
  shows "staging_distinct (snd (collect_other_playlist p d vt s))"
proof -
  have items: "distinct (extend_if_absent (dd_get (playlist_items s) d) (pi_tracks_uri p))"
    by (rule distinct_extend_if_absent[OF staging_distinct_dd_get[OF assms]])
  have like: "staging_distinct (s\<lparr>playlists_to_like := playlists_to_like s @ [pi_playlist_id p]\<rparr>)"
    using assms by (simp add: staging_distinct_def)
  show ?thesis
    using assms items like
    by (simp add: collect_other_playlist_def staging_distinct_update)
qed

lemma playlist_items_log_track [simp]:
  "playlist_items (log_track t d log_id status s) = playlist_items s"
  by (simp add: log_track_def Let_def)

lemma playlist_items_log_album [simp]:
  "playlist_items (log_album a d log_id status s) = playlist_items s"
  by (simp add: log_album_def)

lemma playlist_items_log_other_playlist [simp]:
  "playlist_items (log_other_playlist p d log_id status s) = playlist_items s"
  by (simp add: log_other_playlist_def)

lemma staging_distinct_collect_log:
  assumes "staging_distinct s"
  shows "staging_distinct (collect_log_track t d vt liked log_id s)"
    and "staging_distinct (collect_log_album a d vt liked log_id s)"
    and "staging_distinct (collect_log_other_playlist p d vt log_id s)"
  using staging_distinct_collect_track[OF assms, of t d vt liked]
    staging_distinct_collect_album[OF assms, of a d vt liked]
    staging_distinct_collect_other_playlist[OF assms, of p d vt]
  by (simp_all add: collect_log_track_def collect_log_album_def collect_log_other_playlist_def
      staging_distinct_def split: prod.splits)

lemma staging_distinct_prepare_spotify:
  assumes "staging_distinct s"
    and "prepare_spotify row sp df la lt th s = Inr s'"
  shows "staging_distinct s'"
  using assms(2) staging_distinct_collect_log[OF assms(1)] assms(1)
  by (auto simp add: prepare_spotify_def split: sum.splits option.splits if_splits)

text \<open>
  C6. If no staged list of the playlist staging map holds a URI twice, the same is true
  after \<open>collect_track\<close>, after \<open>collect_album\<close> and after \<open>collect_other_playlist\<close>, for
  every match, destination and state, and so after every \<open>prepare_spotify\<close> that
  returns; the map is empty, hence without duplicates, at the start of the run.
\<close>

theorem C6_staging_distinct:
  "staging_distinct empty_state
   \<and> (staging_distinct s \<longrightarrow>
        staging_distinct (snd (collect_track t d vt liked_tracks_uri s))
        \<and> staging_distinct (snd (collect_album a d vt liked_albums_uri s))
        \<and> staging_distinct (snd (collect_other_playlist p d vt s))
        \<and> (\<forall>s'. prepare_spotify row sp df_playlists liked_albums_uri liked_tracks_uri
                   threshold_ms s = Inr s'
               \<longrightarrow> staging_distinct s'))"
proof (intro conjI impI allI)
  show "staging_distinct empty_state"
    by (simp add: staging_distinct_def empty_state_def)
next
  assume "staging_distinct s"
  then show "staging_distinct (snd (collect_track t d vt liked_tracks_uri s))"
    by (rule staging_distinct_collect_track)
next
  assume "staging_distinct s"
  then show "staging_distinct (snd (collect_album a d vt liked_albums_uri s))"
    by (rule staging_distinct_collect_album)
next
  assume "staging_distinct s"
  then show "staging_distinct (snd (collect_other_playlist p d vt s))"
    by (rule staging_distinct_collect_other_playlist)
next
  fix s'
  assume "staging_distinct s"
    and "prepare_spotify row sp df_playlists liked_albums_uri liked_tracks_uri threshold_ms s
           = Inr s'"
  then show "staging_distinct s'"
    by (rule staging_distinct_prepare_spotify)
qed

text \<open>C6 on two albums that share the track \<open>t:b\<close>, both collected for the playlist
  \<open>"p"\<close>: the staged list is \<open>t:a\<close>, \<open>t:b\<close>, \<open>t:c\<close>.\<close>

theorem C6_staging_distinct_witness:
  "staging_distinct empty_state
   \<and> staging_distinct
        (snd (collect_album (example_album_info ''2'' [''b'', ''c'']) (str ''p'') [] []
           (snd (collect_album (example_album_info ''1'' [''a'', ''b'']) (str ''p'') [] []
                   empty_state))))
   \<and> playlist_items
        (snd (collect_album (example_album_info ''2'' [''b'', ''c'']) (str ''p'') [] []
           (snd (collect_album (example_album_info ''1'' [''a'', ''b'']) (str ''p'') [] []
                   empty_state)))) (str ''p'')
       = Some [str ''t:a'', str ''t:b'', str ''t:c'']"
proof -
  let ?s1 = "snd (collect_album (example_album_info ''1'' [''a'', ''b'']) (str ''p'') [] [] empty_state)"
  let ?s2 = "snd (collect_album (example_album_info ''2'' [''b'', ''c'']) (str ''p'') [] [] ?s1)"
  have e: "staging_distinct empty_state"
    using C6_staging_distinct by blast
  then have 1: "staging_distinct ?s1"
    using C6_staging_distinct[where s = empty_state] by blast
  then have 2: "staging_distinct ?s2"
    using C6_staging_distinct[where s = ?s1] by blast
  have "playlist_items ?s2 (str ''p'') = Some [str ''t:a'', str ''t:b'', str ''t:c'']"
    by (simp add: collect_album_def in_log_def empty_state_def example_album_info_def dd_get_def
        str_def)
  with e 2 show ?thesis by blast
qed

lemma status_literals_distinct:
  "saved \<noteq> skipped_before" "skipped_during \<noteq> skipped_before" "saved \<noteq> skipped_during"
  by (simp_all add: saved_def skipped_before_def skipped_during_def str_def)

text \<open>
  C10. \<open>collect_other_playlist\<close> never gives the status
  \<open>skipped (saved before the run)\<close>: it takes no snapshot of what the user followed before
  the run and tests the run ledger only. A playlist whose key is not in the ledger,
  collected for the destination \<open>"0"\<close>, gets the status \<open>saved\<close> and its id is appended
  to \<open>playlists_to_like\<close>, whatever the user followed before the run.
\<close>

theorem C10_playlist_never_skipped_before:
  "fst (collect_other_playlist p d vt s) \<noteq> skipped_before
   \<and> (\<not> in_log (pi_playlist_uri p) (str ''0'') (log_playlists_others s)
       \<longrightarrow> collect_other_playlist p (str ''0'') vt s
           = (saved, s\<lparr>playlists_to_like := playlists_to_like s @ [pi_playlist_id p]\<rparr>))"
  using status_literals_distinct by (simp add: collect_other_playlist_def)

text \<open>C10 from the empty state: the example playlist is staged for liking.\<close>

theorem C10_playlist_never_skipped_before_witness:
  "\<not> in_log (pi_playlist_uri (example_playlist_info ''1'' [''a''])) (str ''0'')
       (log_playlists_others empty_state)
   \<and> fst (collect_other_playlist (example_playlist_info ''1'' [''a'']) (str ''0'') [] empty_state)
       = saved
   \<and> playlists_to_like
        (snd (collect_other_playlist (example_playlist_info ''1'' [''a'']) (str ''0'') [] empty_state))
       = [pi_playlist_id (example_playlist_info ''1'' [''a''])]"
proof -
  have new: "\<not> in_log (pi_playlist_uri (example_playlist_info ''1'' [''a''])) (str ''0'')
               (log_playlists_others empty_state)"
    by (simp add: in_log_def empty_state_def)
  have "playlists_to_like empty_state = []"
    by (simp add: empty_state_def)
  with new
    C10_playlist_never_skipped_before[of "example_playlist_info ''1'' [''a'']" "str ''0''" "[]"
      empty_state]
  show ?thesis by simp
qed

section \<open>Registry of distinct tracks\<close>

lemma playlist_uri_of_no_playlist_uri:
  "no_playlist_uri tracks uri \<longleftrightarrow>
     (playlist_uri_of tracks uri = None \<or> playlist_uri_of tracks uri = Some [])"
  by (auto simp add: no_playlist_uri_def playlist_uri_of_def split: option.splits)

lemma log_album_tracks_keeps:
  "\<not> no_playlist_uri tracks uri \<Longrightarrow>
   fold (\<lambda>(track_uri, title, duration_ms) tracks.
           if no_playlist_uri tracks track_uri
           then tracks(track_uri \<mapsto> (album_uri, None, title, artists, duration_ms))
           else tracks) infos tracks uri = tracks uri"
proof (induction infos arbitrary: tracks)
  case Nil
  then show ?case by simp
next
  case (Cons info infos)
  obtain track_uri title duration_ms where info: "info = (track_uri, title, duration_ms)"
    by (cases info)
  let ?tracks' = "if no_playlist_uri tracks track_uri
                  then tracks(track_uri \<mapsto> (album_uri, None, title, artists, duration_ms))
                  else tracks"
  have same: "?tracks' uri = tracks uri"
    using Cons.prems by auto
  then have "\<not> no_playlist_uri ?tracks' uri"
    using Cons.prems by (simp add: no_playlist_uri_def)
  from Cons.IH[OF this] same show ?case
    by (simp add: info)
qed

lemma distinct_tracks_log_track:
  "\<not> no_playlist_uri (distinct_tracks s) uri \<Longrightarrow>
   distinct_tracks (log_track t d log_id status s) uri = distinct_tracks s uri"
  by (auto simp add: log_track_def Let_def)

lemma distinct_tracks_log_album:
  "\<not> no_playlist_uri (distinct_tracks s) uri \<Longrightarrow>
   distinct_tracks (log_album a d log_id status s) uri = distinct_tracks s uri"
  by (simp add: log_album_def log_album_tracks_def log_album_tracks_keeps)

lemma fold_upd_other:
  assumes "\<And>info tracks. f info tracks = tracks(fst info \<mapsto> g info)"
  shows "uri \<notin> set (map fst infos) \<Longrightarrow> fold f infos tracks uri = tracks uri"
  by (induction infos arbitrary: tracks) (simp_all add: assms)

lemma fold_upd_listed:
  assumes f: "\<And>info tracks. f info tracks = tracks(fst info \<mapsto> g info)"
  shows "uri \<in> set (map fst infos) \<Longrightarrow>
         \<exists>info \<in> set infos. fold f infos tracks uri = Some (g info)"
proof (induction infos arbitrary: tracks)
  case Nil
  then show ?case by simp
next
  case (Cons info infos)
  have step: "fold f (info # infos) tracks = fold f infos (f info tracks)"
    by simp
  show ?case
  proof (cases "uri \<in> set (map fst infos)")
    case True
    from Cons.IH[OF this, of "f info tracks"] obtain info'
      where "info' \<in> set infos" "fold f infos (f info tracks) uri = Some (g info')"
      by blast
    then have "info' \<in> set (info # infos)"
      "fold f (info # infos) tracks uri = Some (g info')"
      by (simp_all only: step list.set insert_iff simp_thms)
    then show ?thesis by blast
  next
    case False
    with Cons.prems have u: "fst info = uri" by simp
    have "fold f infos (f info tracks) uri = f info tracks uri"
      by (rule fold_upd_other[OF f False])
    also have "\<dots> = Some (g info)"
      by (simp add: f u)
    finally have "fold f (info # infos) tracks uri = Some (g info)"
      by (simp only: step)
    moreover have "info \<in> set (info # infos)" by simp
    ultimately show ?thesis by blast
  qed
qed

lemma log_other_playlist_step:
  "(case info of (track_uri, title, artists, duration_ms, album_uri) \<Rightarrow>
      \<lambda>tracks. tracks(track_uri \<mapsto> (album_uri, Some u, title, join sep artists, duration_ms)))
     tracks
   = tracks(fst info \<mapsto>
       (snd (snd (snd (snd info))), Some u, fst (snd info),
        join sep (fst (snd (snd info))), fst (snd (snd (snd info)))))"
  by (cases info) simp

lemma log_other_playlist_tracks_other:
  "uri \<notin> set (map fst (pi_tracks_info p)) \<Longrightarrow>
   log_other_playlist_tracks p tracks uri = tracks uri"
  unfolding log_other_playlist_tracks_def
  by (rule fold_upd_other[OF log_other_playlist_step])

lemma log_other_playlist_tracks_listed:
  assumes "uri \<in> set (map fst (pi_tracks_info p))"
  shows "playlist_uri_of (log_other_playlist_tracks p tracks) uri = Some (pi_playlist_uri p)"
proof -
  have "\<exists>info \<in> set (pi_tracks_info p).
          log_other_playlist_tracks p tracks uri =
            Some (snd (snd (snd (snd info))), Some (pi_playlist_uri p), fst (snd info),
                  join (str ''; '') (fst (snd (snd info))), fst (snd (snd (snd info))))"
    unfolding log_other_playlist_tracks_def
    by (rule fold_upd_listed[OF log_other_playlist_step assms])
  then show ?thesis
    by (auto simp add: playlist_uri_of_def)
qed

lemma distinct_tracks_log_other_playlist:
  "distinct_tracks (log_other_playlist p d log_id status s)
     = log_other_playlist_tracks p (distinct_tracks s)"
  by (simp add: log_other_playlist_def)

text \<open>
  C5, as the code has it. Take a track whose entry in \<open>distinct_tracks\<close> has a playlist
  reference that is neither null nor empty. \<open>log_track\<close> and \<open>log_album\<close> leave the
  whole entry as it is. After \<open>log_other_playlist\<close> the reference is not null: when the
  track is among the tracks of the logged playlist the entry is written again and its
  reference is the URI of that playlist (the last playlist logged, not the first), and
  otherwise the entry is as it was; as the URI of a playlist is not empty, the
  reference stays neither null nor empty.
\<close>

theorem C5_playlist_reference_kept:
  assumes "\<not> no_playlist_uri (distinct_tracks s) uri"
  shows
    "distinct_tracks (log_track t d log_id status s) uri = distinct_tracks s uri
     \<and> distinct_tracks (log_album a d log_id status s) uri = distinct_tracks s uri
     \<and> playlist_uri_of (distinct_tracks (log_other_playlist p d log_id status s)) uri \<noteq> None
     \<and> (uri \<in> set (map fst (pi_tracks_info p)) \<longrightarrow>
          playlist_uri_of (distinct_tracks (log_other_playlist p d log_id status s)) uri
            = Some (pi_playlist_uri p))
     \<and> (uri \<notin> set (map fst (pi_tracks_info p)) \<longrightarrow>
          distinct_tracks (log_other_playlist p d log_id status s) uri = distinct_tracks s uri)
     \<and> (pi_playlist_uri p \<noteq> [] \<longrightarrow>
          \<not> no_playlist_uri (distinct_tracks (log_other_playlist p d log_id status s)) uri)"
proof -
  have before: "playlist_uri_of (distinct_tracks s) uri \<noteq> None"
    using assms by (simp add: playlist_uri_of_no_playlist_uri)
  have listed: "uri \<in> set (map fst (pi_tracks_info p)) \<Longrightarrow>
      playlist_uri_of (distinct_tracks (log_other_playlist p d log_id status s)) uri
        = Some (pi_playlist_uri p)"
    unfolding distinct_tracks_log_other_playlist
    by (rule log_other_playlist_tracks_listed)
  have other: "uri \<notin> set (map fst (pi_tracks_info p)) \<Longrightarrow>
      distinct_tracks (log_other_playlist p d log_id status s) uri = distinct_tracks s uri"
    unfolding distinct_tracks_log_other_playlist
    by (rule log_other_playlist_tracks_other)
  have "playlist_uri_of (distinct_tracks (log_other_playlist p d log_id status s)) uri \<noteq> None"
  proof (cases "uri \<in> set (map fst (pi_tracks_info p))")
    case True
    then show ?thesis using listed by simp
  next
    case False
    then show ?thesis using other before by (simp add: playlist_uri_of_def)
  qed
  moreover have "pi_playlist_uri p \<noteq> [] \<Longrightarrow>
      \<not> no_playlist_uri (distinct_tracks (log_other_playlist p d log_id status s)) uri"
  proof (cases "uri \<in> set (map fst (pi_tracks_info p))")
    case True
    assume "pi_playlist_uri p \<noteq> []"
    then show ?thesis using listed[OF True] by (simp add: playlist_uri_of_no_playlist_uri)
  next
    case False
    then show ?thesis using other assms by (simp add: no_playlist_uri_def)
  qed
  ultimately show ?thesis
    using distinct_tracks_log_track[OF assms] distinct_tracks_log_album[OF assms] listed other
    by blast
qed

text \<open>C5 on the track \<open>t:b\<close> after the playlist \<open>1\<close> has been logged: logging the
  example track, an album that holds \<open>t:b\<close>, or a playlist that does not hold it keeps
  the reference \<open>playlist:1\<close>; logging the playlist \<open>2\<close>, which holds \<open>t:b\<close>, sets
  \<open>playlist:2\<close>.\<close>

theorem C5_playlist_reference_kept_witness:
  "\<not> no_playlist_uri
       (distinct_tracks (log_other_playlist (example_playlist_info ''1'' [''a'', ''b''])
                           (str ''0'') 1 saved empty_state)) (str ''t:b'')
   \<and> playlist_uri_of
        (distinct_tracks
           (log_track example_track_info (str ''0'') 2 saved
              (log_other_playlist (example_playlist_info ''1'' [''a'', ''b''])
                 (str ''0'') 1 saved empty_state))) (str ''t:b'')
       = Some (str ''playlist:1'')
   \<and> playlist_uri_of
        (distinct_tracks
           (log_album (example_album_info ''2'' [''b'', ''c'']) (str ''0'') 2 saved
              (log_other_playlist (example_playlist_info ''1'' [''a'', ''b''])
                 (str ''0'') 1 saved empty_state))) (str ''t:b'')
       = Some (str ''playlist:1'')
   \<and> playlist_uri_of
        (distinct_tracks
           (log_other_playlist (example_playlist_info ''3'' [''c'']) (str ''0'') 2 saved
              (log_other_playlist (example_playlist_info ''1'' [''a'', ''b''])
                 (str ''0'') 1 saved empty_state))) (str ''t:b'')
       = Some (str ''playlist:1'')
   \<and> playlist_uri_of
        (distinct_tracks
           (log_other_playlist (example_playlist_info ''2'' [''b'', ''c'']) (str ''0'') 2 saved
              (log_other_playlist (example_playlist_info ''1'' [''a'', ''b''])
                 (str ''0'') 1 saved empty_state))) (str ''t:b'')
       = Some (str ''playlist:2'')"
proof -
  let ?s1 = "log_other_playlist (example_playlist_info ''1'' [''a'', ''b'']) (str ''0'') 1 saved
               empty_state"
  have p: "playlist_uri_of (distinct_tracks ?s1) (str ''t:b'') = Some (str ''playlist:1'')"
    by (simp add: log_other_playlist_def log_other_playlist_tracks_def empty_state_def
        example_playlist_info_def playlist_uri_of_def str_def)
  then have h: "\<not> no_playlist_uri (distinct_tracks ?s1) (str ''t:b'')"
    by (simp add: playlist_uri_of_no_playlist_uri str_def)
  have in2: "str ''t:b'' \<in> set (map fst (pi_tracks_info (example_playlist_info ''2'' [''b'', ''c''])))"
    and out3: "str ''t:b'' \<notin> set (map fst (pi_tracks_info (example_playlist_info ''3'' [''c''])))"
    and u2: "pi_playlist_uri (example_playlist_info ''2'' [''b'', ''c'']) = str ''playlist:2''"
    by (simp_all add: example_playlist_info_def str_def)
  from C5_playlist_reference_kept[OF h, of example_track_info "str ''0''" 2 saved
      "example_album_info ''2'' [''b'', ''c'']" "example_playlist_info ''3'' [''c'']"] out3 p
  have a: "playlist_uri_of (distinct_tracks (log_track example_track_info (str ''0'') 2 saved ?s1))
             (str ''t:b'') = Some (str ''playlist:1'')"
    and b: "playlist_uri_of (distinct_tracks
              (log_album (example_album_info ''2'' [''b'', ''c'']) (str ''0'') 2 saved ?s1))
             (str ''t:b'') = Some (str ''playlist:1'')"
    and c: "playlist_uri_of (distinct_tracks
              (log_other_playlist (example_playlist_info ''3'' [''c'']) (str ''0'') 2 saved ?s1))
             (str ''t:b'') = Some (str ''playlist:1'')"
    by (simp_all add: playlist_uri_of_def)
  from C5_playlist_reference_kept[OF h, of example_track_info "str ''0''" 2 saved
      "example_album_info ''2'' [''b'', ''c'']" "example_playlist_info ''2'' [''b'', ''c'']"] in2 u2
  have d: "playlist_uri_of (distinct_tracks
              (log_other_playlist (example_playlist_info ''2'' [''b'', ''c'']) (str ''0'') 2 saved ?s1))
             (str ''t:b'') = Some (str ''playlist:2'')"
    by simp
  from h a b c d show ?thesis by blast
qed

text \<open>C5 as stated fails: the first playlist reference does not win. After the
  playlists \<open>1\<close> and \<open>2\<close>, which share the track \<open>t:b\<close>, have been logged in this order,
  the reference of \<open>t:b\<close> is \<open>playlist:2\<close>.\<close>

theorem C5_first_reference_counterexample:
  "playlist_uri_of
     (distinct_tracks (log_other_playlist (example_playlist_info ''1'' [''a'', ''b''])
                         (str ''0'') 1 saved empty_state)) (str ''t:b'')
     = Some (str ''playlist:1'')
   \<and> playlist_uri_of
       (distinct_tracks
          (log_other_playlist (example_playlist_info ''2'' [''b'', ''c'']) (str ''0'') 2 saved
             (log_other_playlist (example_playlist_info ''1'' [''a'', ''b''])
                (str ''0'') 1 saved empty_state))) (str ''t:b'')
     = Some (str ''playlist:2'')
   \<and> str ''playlist:1'' \<noteq> str ''playlist:2''"
  by (simp add: log_other_playlist_def log_other_playlist_tracks_def empty_state_def
      example_playlist_info_def playlist_uri_of_def str_def)

section \<open>Cascade and resolver\<close>

text \<open>
  C7 fails on the code. For a video whose channel name does not contain \<open>" - Topic"\<close>,
  \<open>find_track\<close> raises \<open>TypeError\<close> at its first call of \<open>qsearch_track\<close> (the argument
  \<open>sp\<close> is missing): no query is issued, and the error leaves \<open>prepare_spotify\<close>.
\<close>

theorem C7_plain_channel_raises:
  assumes "\<not> py_in (str '' - Topic'') (row_youtube_channel row)"
  shows "find_track row sp = Inl TypeError
     \<and> (get_user_playlist_id row df_playlists \<noteq> Inl IndexError
          \<longrightarrow> prepare_spotify row sp df_playlists liked_albums_uri liked_tracks_uri None s
              = Inl TypeError)"
  using assms
  by (auto simp add: find_track_def prepare_spotify_def get_user_playlist_id_def
      split: list.splits)

text \<open>C7 on the example video, whose channel is \<open>"x"\<close> and whose playlist \<open>"0"\<close>
  has a row in the table.\<close>

theorem C7_plain_channel_raises_witness:
  "\<not> py_in (str '' - Topic'') (row_youtube_channel example_row)
   \<and> find_track example_row example_sp = Inl TypeError
   \<and> get_user_playlist_id example_row
        [\<lparr>pr_youtube_playlist_id = str ''0'', pr_playlist_name = str ''n'',
          pr_spotify_playlist_id = str ''0''\<rparr>] \<noteq> Inl IndexError
   \<and> prepare_spotify example_row example_sp
        [\<lparr>pr_youtube_playlist_id = str ''0'', pr_playlist_name = str ''n'',
          pr_spotify_playlist_id = str ''0''\<rparr>] [] [] None empty_state
       = Inl TypeError"
proof -
  have c: "\<not> py_in (str '' - Topic'') (row_youtube_channel example_row)"
    by (simp add: example_row_def str_def)
  have g: "get_user_playlist_id example_row
        [\<lparr>pr_youtube_playlist_id = str ''0'', pr_playlist_name = str ''n'',
          pr_spotify_playlist_id = str ''0''\<rparr>] \<noteq> Inl IndexError"
    by (simp add: get_user_playlist_id_def example_row_def)
  from c g C7_plain_channel_raises[OF c, of example_sp
      "[\<lparr>pr_youtube_playlist_id = str ''0'', pr_playlist_name = str ''n'',
          pr_spotify_playlist_id = str ''0''\<rparr>]" "[]" "[]" empty_state]
  show ?thesis by blast
qed

text \<open>
  C8 fails on the code. When no row of \<open>df_playlists\<close> has the \<open>youtube_playlist_id\<close> of
  the video, \<open>get_user_playlist_id\<close> raises \<open>IndexError\<close>, and so does
  \<open>prepare_spotify\<close>: the record is not skipped, the run stops. With one or more rows the
  third column of the first of them is returned.
\<close>

theorem C8_no_playlist_row_raises:
  "(filter (\<lambda>p. pr_youtube_playlist_id p = row_youtube_playlist_id row) df_playlists = []
      \<longrightarrow> get_user_playlist_id row df_playlists = Inl IndexError
          \<and> prepare_spotify row sp df_playlists liked_albums_uri liked_tracks_uri threshold_ms s
              = Inl IndexError)
   \<and> (filter (\<lambda>p. pr_youtube_playlist_id p = row_youtube_playlist_id row) df_playlists = p # ps
      \<longrightarrow> get_user_playlist_id row df_playlists = Inr (pr_spotify_playlist_id p))"
  by (simp add: get_user_playlist_id_def prepare_spotify_def)

text \<open>C8 on the example video, whose playlist is \<open>"0"\<close>: a table whose only row is
  for another playlist gives the error; a table with two rows for \<open>"0"\<close> gives the
  third column of the first.\<close>

theorem C8_no_playlist_row_raises_witness:
  "filter (\<lambda>p. pr_youtube_playlist_id p = row_youtube_playlist_id example_row)
     [\<lparr>pr_youtube_playlist_id = str ''PL1'', pr_playlist_name = str ''n'',
       pr_spotify_playlist_id = str ''sp1''\<rparr>] = []
   \<and> prepare_spotify example_row example_sp
       [\<lparr>pr_youtube_playlist_id = str ''PL1'', pr_playlist_name = str ''n'',
         pr_spotify_playlist_id = str ''sp1''\<rparr>] [] [] None empty_state
       = Inl IndexError
   \<and> get_user_playlist_id example_row
       [\<lparr>pr_youtube_playlist_id = str ''0'', pr_playlist_name = str ''n'',
         pr_spotify_playlist_id = str ''sp1''\<rparr>,
        \<lparr>pr_youtube_playlist_id = str ''0'', pr_playlist_name = str ''n'',
         pr_spotify_playlist_id = str ''sp2''\<rparr>]
       = Inr (str ''sp1'')"
proof -
  have none: "filter (\<lambda>p. pr_youtube_playlist_id p = row_youtube_playlist_id example_row)
     [\<lparr>pr_youtube_playlist_id = str ''PL1'', pr_playlist_name = str ''n'',
       pr_spotify_playlist_id = str ''sp1''\<rparr>] = []"
    by (simp add: example_row_def str_def)
  have two: "filter (\<lambda>p. pr_youtube_playlist_id p = row_youtube_playlist_id example_row)
     [\<lparr>pr_youtube_playlist_id = str ''0'', pr_playlist_name = str ''n'',
       pr_spotify_playlist_id = str ''sp1''\<rparr>,
      \<lparr>pr_youtube_playlist_id = str ''0'', pr_playlist_name = str ''n'',
       pr_spotify_playlist_id = str ''sp2''\<rparr>]
     = \<lparr>pr_youtube_playlist_id = str ''0'', pr_playlist_name = str ''n'',
         pr_spotify_playlist_id = str ''sp1''\<rparr>
       # [\<lparr>pr_youtube_playlist_id = str ''0'', pr_playlist_name = str ''n'',
           pr_spotify_playlist_id = str ''sp2''\<rparr>]"
    by (simp add: example_row_def)
  from none C8_no_playlist_row_raises[of example_row
      "[\<lparr>pr_youtube_playlist_id = str ''PL1'', pr_playlist_name = str ''n'',
         pr_spotify_playlist_id = str ''sp1''\<rparr>]" example_sp "[]" "[]" None empty_state]
  have a: "prepare_spotify example_row example_sp
       [\<lparr>pr_youtube_playlist_id = str ''PL1'', pr_playlist_name = str ''n'',
         pr_spotify_playlist_id = str ''sp1''\<rparr>] [] [] None empty_state
       = Inl IndexError"
    by blast
  from two C8_no_playlist_row_raises[of example_row
      "[\<lparr>pr_youtube_playlist_id = str ''0'', pr_playlist_name = str ''n'',
         pr_spotify_playlist_id = str ''sp1''\<rparr>,
        \<lparr>pr_youtube_playlist_id = str ''0'', pr_playlist_name = str ''n'',
         pr_spotify_playlist_id = str ''sp2''\<rparr>]"]
  have b: "get_user_playlist_id example_row
       [\<lparr>pr_youtube_playlist_id = str ''0'', pr_playlist_name = str ''n'',
         pr_spotify_playlist_id = str ''sp1''\<rparr>,
        \<lparr>pr_youtube_playlist_id = str ''0'', pr_playlist_name = str ''n'',
         pr_spotify_playlist_id = str ''sp2''\<rparr>]
       = Inr (str ''sp1'')"
    by simp
  from none a b show ?thesis by blast
qed

end
